theory Spec2Isabelle
  imports Complex_Main
begin

section \<open>Values, errors and the parameter mapping\<close>

text \<open>
  Python floats are read as real numbers; the decimal constants of the source are the
  corresponding fractions.  The exceptions the code can raise are values of \<open>error\<close>;
  a computation that may raise returns \<open>error + 'a\<close>, \<open>Inl\<close> carrying the exception.
\<close>

datatype error =
    KeyError string
  | RuntimeError string
  | ValueError string
  | IndexError string
  | LinAlgError string

text \<open>The parameter dictionary \<open>self.params\<close> of \<open>NicotineRewardModel\<close>.\<close>

type_synonym params = "string \<rightharpoonup> real"

text \<open>A numpy state vector of shape (5,): \<open>[N, R_a, R_d, R_T, D]\<close>.\<close>

type_synonym state = "real \<times> real \<times> real \<times> real \<times> real"

definition and_then :: "error + 'a \<Rightarrow> ('a \<Rightarrow> error + 'b) \<Rightarrow> error + 'b" where
  "and_then r f = (case r of Inl e \<Rightarrow> Inl e | Inr x \<Rightarrow> f x)"

text \<open>\<open>p[k]\<close> on a dictionary: a missing key raises \<open>KeyError(k)\<close>.\<close>

definition getitem :: "params \<Rightarrow> string \<Rightarrow> error + real" where
  "getitem p k = (case p k of None \<Rightarrow> Inl (KeyError k) | Some v \<Rightarrow> Inr v)"

text \<open>The array component \<open>v[i]\<close> of a state vector, and the vector with one component replaced.\<close>

definition component :: "nat \<Rightarrow> state \<Rightarrow> real" where
  "component i y =
     (case y of (y0, y1, y2, y3, y4) \<Rightarrow>
        if i = 0 then y0 else if i = 1 then y1 else if i = 2 then y2
        else if i = 3 then y3 else y4)"

definition replace :: "nat \<Rightarrow> real \<Rightarrow> state \<Rightarrow> state" where
  "replace j x y =
     (case y of (y0, y1, y2, y3, y4) \<Rightarrow>
        if j = 0 then (x, y1, y2, y3, y4) else if j = 1 then (y0, x, y2, y3, y4)
        else if j = 2 then (y0, y1, x, y3, y4) else if j = 3 then (y0, y1, y2, x, y4)
        else (y0, y1, y2, y3, x))"

section \<open>model.py: the state-space model\<close>

definition default_parameters :: params where
  "default_parameters =
     [''k_N'' \<mapsto> 6 / 100,
      ''k_on'' \<mapsto> 5 / 10,
      ''k_off'' \<mapsto> 1 / 10,
      ''k_des'' \<mapsto> 5 / 100,
      ''k_res'' \<mapsto> 1 / 100,
      ''k_D'' \<mapsto> 1,
      ''k_clear'' \<mapsto> 5 / 10,
      ''epsilon'' \<mapsto> 1 / 10000,
      ''D_0'' \<mapsto> 5 / 10,
      ''R_T_0'' \<mapsto> 1]"

text \<open>
  \<open>NicotineRewardModel.dynamics\<close>.  The dictionary lookups happen in the order of the
  source, so the first missing key is the one reported.
\<close>

definition dynamics :: "params \<Rightarrow> real \<Rightarrow> state \<Rightarrow> (real \<Rightarrow> real) \<Rightarrow> error + state" where
  "dynamics p t y input_func =
     (case y of (N, R_a, R_d, R_T, D) \<Rightarrow>
        (let I = input_func t;
             R_available = max 0 (R_T - R_a - R_d)
         in
           and_then (getitem p ''k_N'') (\<lambda>k_N.
             let dN_dt = I - k_N * N in
           and_then (getitem p ''k_on'') (\<lambda>k_on.
           and_then (getitem p ''k_off'') (\<lambda>k_off.
           and_then (getitem p ''k_des'') (\<lambda>k_des.
             let dR_a_dt = k_on * N * R_available - k_off * R_a - k_des * R_a in
           and_then (getitem p ''k_res'') (\<lambda>k_res.
             let dR_d_dt = k_des * R_a - k_res * R_d in
           and_then (getitem p ''k_D'') (\<lambda>k_D.
           and_then (getitem p ''k_clear'') (\<lambda>k_clear.
             let dD_dt = k_D * R_a - k_clear * D in
           and_then (getitem p ''epsilon'') (\<lambda>epsilon.
           and_then (getitem p ''D_0'') (\<lambda>D_0.
             let dR_T_dt = epsilon * (D - D_0) in
           Inr (dN_dt, dR_a_dt, dR_d_dt, dR_T_dt, dD_dt))))))))))))"

text \<open>\<open>NicotineRewardModel.baseline_state\<close>.\<close>

definition baseline_state :: "params \<Rightarrow> error + state" where
  "baseline_state p =
     and_then (getitem p ''R_T_0'') (\<lambda>R_T_0.
     and_then (getitem p ''D_0'') (\<lambda>D_0.
     Inr (0, 0, 0, R_T_0, D_0)))"

text \<open>
  The model object.  Its only attribute is the parameter dictionary; the analyzers hold
  a reference to the same object, so every method that can touch it takes the model and
  returns it: an action returns its result, or the exception raised, together with the
  model as the call leaves it.
\<close>

record model =
  params :: params

type_synonym 'a action = "model \<Rightarrow> (error + 'a) \<times> model"

text \<open>\<open>NicotineRewardModel.__init__\<close>: the defaults, updated with the caller's entries.\<close>

definition NicotineRewardModel :: "params option \<Rightarrow> model" where
  "NicotineRewardModel params_arg =
     (case params_arg of
        None \<Rightarrow> \<lparr>params = default_parameters\<rparr>
      | Some q \<Rightarrow> \<lparr>params = default_parameters ++ q\<rparr>)"

text \<open>\<open>self.model.params[k] = v\<close>.\<close>

definition params_setitem :: "string \<Rightarrow> real \<Rightarrow> model \<Rightarrow> model" where
  "params_setitem k v s = s\<lparr>params := (params s)(k \<mapsto> v)\<rparr>"

text \<open>
  The stiff ODE integrator \<open>scipy.integrate.solve_ivp\<close> is outside the repository.
  It is a parameter of the model: a function of the right-hand side, the time span, the
  initial state, the method name, the evaluation grid and the two tolerances, returning
  the solution object or the exception it raised.  \<open>sol_y\<close> holds the five rows of
  \<open>sol.y\<close>.
\<close>

record ivp_solution =
  sol_success :: bool
  sol_message :: string
  sol_t :: "real list"
  sol_y :: "real list \<times> real list \<times> real list \<times> real list \<times> real list"

type_synonym ode_solver =
  "(real \<Rightarrow> state \<Rightarrow> error + state) \<Rightarrow> real \<times> real \<Rightarrow> state \<Rightarrow> string \<Rightarrow> real list
     \<Rightarrow> real \<Rightarrow> real \<Rightarrow> error + ivp_solution"

text \<open>The dictionary returned by \<open>simulate\<close>, one field per key.\<close>

record simulation =
  sim_t :: "real list"
  sim_N :: "real list"
  sim_R_a :: "real list"
  sim_R_d :: "real list"
  sim_R_T :: "real list"
  sim_D :: "real list"
  sim_sol :: ivp_solution

text \<open>\<open>np.linspace(a, b, n)\<close>.\<close>

definition linspace :: "real \<Rightarrow> real \<Rightarrow> nat \<Rightarrow> real list" where
  "linspace a b n = map (\<lambda>i. a + real i * ((b - a) / real (n - 1))) [0..<n]"

text \<open>\<open>NicotineRewardModel.simulate\<close>.\<close>

definition simulate ::
  "ode_solver \<Rightarrow> real \<times> real \<Rightarrow> (real \<Rightarrow> real) \<Rightarrow> state option \<Rightarrow> real list option \<Rightarrow> string
     \<Rightarrow> simulation action" where
  "simulate solve_ivp t_span input_func y0 t_eval method s =
     (case (case y0 of None \<Rightarrow> baseline_state (params s) | Some y \<Rightarrow> Inr y) of
        Inl e \<Rightarrow> (Inl e, s)
      | Inr y0' \<Rightarrow>
          (let t_eval' = (case t_eval of
                            None \<Rightarrow> linspace (fst t_span) (snd t_span) 1000
                          | Some ts \<Rightarrow> ts)
           in case solve_ivp (\<lambda>t y. dynamics (params s) t y input_func) t_span y0' method t_eval'
                     (1 / 10 ^ 8) (1 / 10 ^ 10) of
                Inl e \<Rightarrow> (Inl e, s)
              | Inr sol \<Rightarrow>
                  if \<not> sol_success sol
                  then (Inl (RuntimeError (''Integration failed: '' @ sol_message sol)), s)
                  else (case sol_y sol of (y_0, y_1, y_2, y_3, y_4) \<Rightarrow>
                          (Inr \<lparr>sim_t = sol_t sol, sim_N = y_0, sim_R_a = y_1, sim_R_d = y_2,
                                sim_R_T = y_3, sim_D = y_4, sim_sol = sol\<rparr>, s))))"

text \<open>\<open>xs[-1]\<close> on an array: an empty one raises \<open>IndexError\<close>.\<close>

definition last_item :: "real list \<Rightarrow> error + real" where
  "last_item xs =
     (if xs = [] then Inl (IndexError ''index -1 is out of bounds for axis 0 with size 0'')
      else Inr (last xs))"

text \<open>
  The multivariate root finder \<open>scipy.optimize.fsolve\<close>, a parameter like the
  integrator: a function of the residual function and the initial guess.
\<close>

type_synonym root_solver = "(state \<Rightarrow> error + state) \<Rightarrow> state \<Rightarrow> error + state"

text \<open>The inner function \<open>steady_state_eqs\<close> of \<open>steady_state\<close>.\<close>

definition steady_state_eqs :: "params \<Rightarrow> real \<Rightarrow> bool \<Rightarrow> state \<Rightarrow> error + state" where
  "steady_state_eqs p I_const include_upregulation y =
     and_then (dynamics p 0 y (\<lambda>t. I_const)) (\<lambda>derivatives.
       if \<not> include_upregulation then Inr (replace 3 0 derivatives) else Inr derivatives)"

text \<open>\<open>NicotineRewardModel.steady_state\<close>.\<close>

definition steady_state :: "ode_solver \<Rightarrow> root_solver \<Rightarrow> real \<Rightarrow> bool \<Rightarrow> state action" where
  "steady_state solve_ivp fsolve I_const include_upregulation s =
     (case baseline_state (params s) of
        Inl e \<Rightarrow> (Inl e, s)
      | Inr y0 \<Rightarrow>
          (case simulate solve_ivp (0, if \<not> include_upregulation then 500 else 100000)
                  (\<lambda>t. I_const) (Some y0) None ''LSODA'' s of
             (Inl e, s1) \<Rightarrow> (Inl e, s1)
           | (Inr sol, s1) \<Rightarrow>
               (case and_then (last_item (sim_N sol)) (\<lambda>n_end.
                     and_then (last_item (sim_R_a sol)) (\<lambda>r_a_end.
                     and_then (last_item (sim_R_d sol)) (\<lambda>r_d_end.
                     and_then (last_item (sim_R_T sol)) (\<lambda>r_t_end.
                     and_then (last_item (sim_D sol)) (\<lambda>d_end.
                     Inr (n_end, r_a_end, r_d_end, r_t_end, d_end)))))) of
                  Inl e \<Rightarrow> (Inl e, s1)
                | Inr y_guess \<Rightarrow>
                    (fsolve (steady_state_eqs (params s1) I_const include_upregulation) y_guess,
                     s1))))"

section \<open>stability.py: the Jacobian\<close>

text \<open>
  \<open>StabilityAnalyzer.jacobian\<close>: a 5 by 5 array of zeros with twelve entries assigned,
  written out row by row.  \<open>R_available\<close> is computed without the \<open>max\<close> of
  \<open>dynamics\<close>, as in the source.
\<close>

definition jacobian :: "params \<Rightarrow> state \<Rightarrow> real \<Rightarrow> error + real list list" where
  "jacobian p y I_const =
     (case y of (N, R_a, R_d, R_T, D) \<Rightarrow>
        (let R_available = R_T - R_a - R_d in
           and_then (getitem p ''k_N'') (\<lambda>k_N.
           and_then (getitem p ''k_on'') (\<lambda>k_on.
           and_then (getitem p ''k_off'') (\<lambda>k_off.
           and_then (getitem p ''k_des'') (\<lambda>k_des.
           and_then (getitem p ''k_res'') (\<lambda>k_res.
           and_then (getitem p ''epsilon'') (\<lambda>epsilon.
           and_then (getitem p ''k_D'') (\<lambda>k_D.
           and_then (getitem p ''k_clear'') (\<lambda>k_clear.
           Inr [[- k_N, 0, 0, 0, 0],
                [k_on * R_available, - k_on * N - k_off - k_des, - k_on * N, k_on * N, 0],
                [0, k_des, - k_res, 0, 0],
                [0, 0, 0, 0, epsilon],
                [0, k_D, 0, 0, - k_clear]]))))))))))"

text \<open>
  What an eigen-decomposition of a real matrix has to return: \<open>lam\<close> is an eigenvalue
  of \<open>A\<close> with eigenvector \<open>v\<close> when \<open>v\<close> is not the zero vector and \<open>A v = lam v\<close>.
\<close>

definition mat_vec :: "real list list \<Rightarrow> complex list \<Rightarrow> complex list" where
  "mat_vec A v = map (\<lambda>row. sum_list (map2 (\<lambda>a x. complex_of_real a * x) row v)) A"

definition is_eigenpair :: "real list list \<Rightarrow> complex \<Rightarrow> complex list \<Rightarrow> bool" where
  "is_eigenpair A lam v =
     (length v = length A \<and> list_ex (\<lambda>x. x \<noteq> 0) v \<and> mat_vec A v = map (\<lambda>x. lam * x) v)"

section \<open>stability.py: eigen-analysis and parameter sensitivity\<close>

text \<open>
  A float that may be the marker \<open>np.nan\<close>.  The arrays the sweeps fill hold such
  values: the code writes \<open>np.nan\<close> into them itself.
\<close>

datatype float64 = Finite real | NaN

text \<open>
  The eigen-decomposition \<open>scipy.linalg.eig\<close>, a parameter like the integrator: a
  function of the matrix, returning eigenvalues and eigenvectors or the exception raised.
\<close>

type_synonym eig_solver = "real list list \<Rightarrow> error + complex list \<times> complex list list"

text \<open>The dictionary returned by \<open>eigenanalysis\<close>, one field per key.\<close>

record eigen_results =
  er_eigenvalues :: "complex list"
  er_eigenvectors :: "complex list list"
  er_timescales :: "float64 list"
  er_is_stable :: bool
  er_real_parts :: "real list"
  er_imag_parts :: "real list"

text \<open>\<open>StabilityAnalyzer.eigenanalysis\<close>; \<open>1.0 / 0\<close> is \<open>inf\<close>, replaced by \<open>np.nan\<close>.\<close>

definition eigenanalysis :: "eig_solver \<Rightarrow> state \<Rightarrow> real \<Rightarrow> eigen_results action" where
  "eigenanalysis eig y I_const s =
     (case and_then (jacobian (params s) y I_const) eig of
        Inl e \<Rightarrow> (Inl e, s)
      | Inr (eigvals, eigvecs) \<Rightarrow>
          (let real_parts = map Re eigvals;
               imag_parts = map Im eigvals;
               all_negative = list_all (\<lambda>x. x < 0) real_parts;
               timescales = map (\<lambda>x. if x = 0 then NaN else Finite (1 / \<bar>x\<bar>)) real_parts
           in (Inr \<lparr>er_eigenvalues = eigvals, er_eigenvectors = eigvecs,
                     er_timescales = timescales, er_is_stable = all_negative,
                     er_real_parts = real_parts, er_imag_parts = imag_parts\<rparr>, s)))"

text \<open>\<open>np.max\<close> of an array; an empty one raises \<open>ValueError\<close>.\<close>

definition np_max :: "real list \<Rightarrow> error + real" where
  "np_max xs =
     (case xs of
        [] \<Rightarrow> Inl (ValueError ''zero-size array to reduction operation maximum which has no identity'')
      | x # rest \<Rightarrow> Inr (foldl max x rest))"

text \<open>The dictionary returned by \<open>parameter_sensitivity\<close>.\<close>

record sensitivity_result =
  sr_param_values :: "real list"
  sr_max_real_eigenvalue :: "float64 list"
  sr_is_stable :: "bool list"

text \<open>
  One iteration of the loop of \<open>parameter_sensitivity\<close>: the parameter is set, then
  the \<open>try\<close> block either appends the two results or, on any exception, the
  \<open>except\<close> block appends \<open>np.nan\<close> and \<open>False\<close>.  Nothing is appended before the
  last statement that can raise.
\<close>

definition sensitivity_step ::
  "ode_solver \<Rightarrow> root_solver \<Rightarrow> eig_solver \<Rightarrow> string \<Rightarrow> real \<Rightarrow> bool \<Rightarrow> real
     \<Rightarrow> (float64 list \<times> bool list) \<times> model \<Rightarrow> (float64 list \<times> bool list) \<times> model" where
  "sensitivity_step solve_ivp fsolve eig param_name I_const include_upregulation p_val st =
     (case st of ((max_real_eigs, is_stable), s) \<Rightarrow>
        (let s1 = params_setitem param_name p_val s
         in case steady_state solve_ivp fsolve I_const include_upregulation s1 of
              (Inl e, s2) \<Rightarrow> ((max_real_eigs @ [NaN], is_stable @ [False]), s2)
            | (Inr y_ss, s2) \<Rightarrow>
                (case eigenanalysis eig y_ss I_const s2 of
                   (Inl e, s3) \<Rightarrow> ((max_real_eigs @ [NaN], is_stable @ [False]), s3)
                 | (Inr eigen, s3) \<Rightarrow>
                     (case np_max (er_real_parts eigen) of
                        Inl e \<Rightarrow> ((max_real_eigs @ [NaN], is_stable @ [False]), s3)
                      | Inr m \<Rightarrow>
                          ((max_real_eigs @ [Finite m], is_stable @ [er_is_stable eigen]), s3)))))"

text \<open>\<open>StabilityAnalyzer.parameter_sensitivity\<close>; the \<open>for\<close> loop is a left fold.\<close>

definition parameter_sensitivity ::
  "ode_solver \<Rightarrow> root_solver \<Rightarrow> eig_solver \<Rightarrow> string \<Rightarrow> real list \<Rightarrow> real \<Rightarrow> bool
     \<Rightarrow> sensitivity_result action" where
  "parameter_sensitivity solve_ivp fsolve eig param_name param_range I_const include_upregulation s =
     (case getitem (params s) param_name of
        Inl e \<Rightarrow> (Inl e, s)
      | Inr original_value \<Rightarrow>
          (case foldl (\<lambda>st p_val. sensitivity_step solve_ivp fsolve eig param_name I_const
                                   include_upregulation p_val st)
                  (([], []), s) param_range of
             ((max_real_eigs, is_stable), s1) \<Rightarrow>
               (let s2 = params_setitem param_name original_value s1
                in (Inr \<lparr>sr_param_values = param_range,
                          sr_max_real_eigenvalue = max_real_eigs,
                          sr_is_stable = is_stable\<rparr>, s2))))"

text \<open>
  What the \<open>try\<close> block of one iteration of \<open>parameter_sensitivity\<close> computes for
  the sweep value \<open>p_val\<close> on a model \<open>s\<close>: the exception that ends it, or the
  leading eigenvalue and the stability flag it appends.
\<close>

definition sensitivity_point ::
  "ode_solver \<Rightarrow> root_solver \<Rightarrow> eig_solver \<Rightarrow> string \<Rightarrow> real \<Rightarrow> bool \<Rightarrow> model \<Rightarrow> real
     \<Rightarrow> error + float64 \<times> bool" where
  "sensitivity_point solve_ivp fsolve eig param_name I_const include_upregulation s p_val =
     (let s1 = params_setitem param_name p_val s
      in and_then (fst (steady_state solve_ivp fsolve I_const include_upregulation s1)) (\<lambda>y_ss.
         and_then (fst (eigenanalysis eig y_ss I_const s1)) (\<lambda>eigen.
         and_then (np_max (er_real_parts eigen)) (\<lambda>m.
         Inr (Finite m, er_is_stable eigen)))))"

section \<open>bifurcation.py: continuation, hysteresis and thresholds\<close>

text \<open>A row of the \<open>n\<close> by 5 array \<open>steady_states\<close>.\<close>

type_synonym row = "float64 \<times> float64 \<times> float64 \<times> float64 \<times> float64"

definition row_of :: "state \<Rightarrow> row" where
  "row_of y = (case y of (y0, y1, y2, y3, y4) \<Rightarrow>
                 (Finite y0, Finite y1, Finite y2, Finite y3, Finite y4))"

definition nan_row :: row where
  "nan_row = (NaN, NaN, NaN, NaN, NaN)"

definition zero_row :: row where
  "zero_row = (Finite 0, Finite 0, Finite 0, Finite 0, Finite 0)"

text \<open>
  The dictionary returned by \<open>continuation_1d\<close>; the keys \<open>stability\<close> and
  \<open>max_eigenvalue\<close> are present only when \<open>track_stability\<close> is set.
\<close>

record continuation_result =
  cr_param_values :: "real list"
  cr_steady_states :: "row list"
  cr_stability :: "bool list option"
  cr_max_eigenvalue :: "float64 list option"

text \<open>
  One iteration of the loop of \<open>continuation_1d\<close>, on the three preallocated arrays.
  Every assignment of the \<open>try\<close> block is kept when a later statement raises, and the
  \<open>except\<close> block then overwrites slot \<open>i\<close> of all three arrays.
\<close>

definition continuation_step ::
  "ode_solver \<Rightarrow> root_solver \<Rightarrow> eig_solver \<Rightarrow> string \<Rightarrow> bool \<Rightarrow> bool \<Rightarrow> bool
     \<Rightarrow> nat \<times> real \<Rightarrow> (row list \<times> bool list \<times> float64 list) \<times> model
     \<Rightarrow> (row list \<times> bool list \<times> float64 list) \<times> model" where
  "continuation_step solve_ivp fsolve eig param_name include_upregulation track_stability
       varying_input ip st =
     (case ip of (i, p_val) \<Rightarrow>
      case st of ((steady_states, is_stable, max_eigs), s) \<Rightarrow>
        (let s1 = (if varying_input then s else params_setitem param_name p_val s);
             I_const = (if varying_input then p_val else 0)
         in case steady_state solve_ivp fsolve I_const include_upregulation s1 of
              (Inl e, s2) \<Rightarrow>
                ((steady_states[i := nan_row], is_stable[i := False], max_eigs[i := NaN]), s2)
            | (Inr y_ss, s2) \<Rightarrow>
                (let steady_states1 = steady_states[i := row_of y_ss]
                 in if track_stability
                    then (case eigenanalysis eig y_ss I_const s2 of
                            (Inl e, s3) \<Rightarrow>
                              ((steady_states1[i := nan_row], is_stable[i := False],
                                max_eigs[i := NaN]), s3)
                          | (Inr eigen, s3) \<Rightarrow>
                              (let is_stable1 = is_stable[i := er_is_stable eigen]
                               in case np_max (er_real_parts eigen) of
                                    Inl e \<Rightarrow>
                                      ((steady_states1[i := nan_row], is_stable1[i := False],
                                        max_eigs[i := NaN]), s3)
                                  | Inr m \<Rightarrow>
                                      ((steady_states1, is_stable1, max_eigs[i := Finite m]), s3)))
                    else ((steady_states1, is_stable, max_eigs), s2))))"

text \<open>\<open>BifurcationAnalyzer.continuation_1d\<close>; \<open>enumerate\<close> pairs each value with its index.\<close>

definition continuation_1d ::
  "ode_solver \<Rightarrow> root_solver \<Rightarrow> eig_solver \<Rightarrow> string \<Rightarrow> real list \<Rightarrow> bool \<Rightarrow> bool
     \<Rightarrow> continuation_result action" where
  "continuation_1d solve_ivp fsolve eig param_name param_range include_upregulation
       track_stability s =
     (let n_params = length param_range;
          steady_states = replicate n_params zero_row;
          is_stable = replicate n_params False;
          max_eigs = replicate n_params (Finite 0);
          varying_input = (param_name = ''I'');
          original_param = (if varying_input then None else params s param_name)
      in case foldl (\<lambda>st ip. continuation_step solve_ivp fsolve eig param_name
                                include_upregulation track_stability varying_input ip st)
                ((steady_states, is_stable, max_eigs), s) (enumerate 0 param_range) of
           ((steady_states', is_stable', max_eigs'), s1) \<Rightarrow>
             (let s2 = (case original_param of
                          None \<Rightarrow> s1
                        | Some v \<Rightarrow> if \<not> varying_input then params_setitem param_name v s1 else s1)
              in (Inr \<lparr>cr_param_values = param_range,
                        cr_steady_states = steady_states',
                        cr_stability = (if track_stability then Some is_stable' else None),
                        cr_max_eigenvalue = (if track_stability then Some max_eigs' else None)\<rparr>,
                  s2)))"

text \<open>
  What the \<open>try\<close> block of one iteration of \<open>continuation_1d\<close> computes for the
  sweep value \<open>p_val\<close> on a model \<open>s\<close>: the exception that ends it, or the steady
  state with the stability flag and leading eigenvalue it stores (the two slots keep
  their initial \<open>False\<close> and \<open>0\<close> when stability is not tracked).
\<close>

definition continuation_point ::
  "ode_solver \<Rightarrow> root_solver \<Rightarrow> eig_solver \<Rightarrow> string \<Rightarrow> bool \<Rightarrow> bool \<Rightarrow> model \<Rightarrow> real
     \<Rightarrow> error + state \<times> bool \<times> float64" where
  "continuation_point solve_ivp fsolve eig param_name include_upregulation track_stability s p_val =
     (let varying_input = (param_name = ''I'');
          s1 = (if varying_input then s else params_setitem param_name p_val s);
          I_const = (if varying_input then p_val else 0)
      in and_then (fst (steady_state solve_ivp fsolve I_const include_upregulation s1)) (\<lambda>y_ss.
           if track_stability
           then and_then (fst (eigenanalysis eig y_ss I_const s1)) (\<lambda>eigen.
                and_then (np_max (er_real_parts eigen)) (\<lambda>m.
                Inr (y_ss, er_is_stable eigen, Finite m)))
           else Inr (y_ss, False, Finite 0)))"

definition point_row :: "error + state \<times> bool \<times> float64 \<Rightarrow> row" where
  "point_row r = (case r of Inl e \<Rightarrow> nan_row | Inr (y_ss, flag, m) \<Rightarrow> row_of y_ss)"

definition point_stable :: "error + state \<times> bool \<times> float64 \<Rightarrow> bool" where
  "point_stable r = (case r of Inl e \<Rightarrow> False | Inr (y_ss, flag, m) \<Rightarrow> flag)"

definition point_max_eig :: "error + state \<times> bool \<times> float64 \<Rightarrow> float64" where
  "point_max_eig r = (case r of Inl e \<Rightarrow> NaN | Inr (y_ss, flag, m) \<Rightarrow> m)"

text \<open>The dictionary \<open>var_indices\<close> of \<open>critical_transition_threshold\<close>, indexed by name.\<close>

definition var_indices :: "string \<Rightarrow> error + nat" where
  "var_indices v =
     (if v = ''N'' then Inr 0
      else if v = ''R_a'' then Inr 1
      else if v = ''R_d'' then Inr 2
      else if v = ''R_T'' then Inr 3
      else if v = ''D'' then Inr 4
      else Inl (KeyError v))"

text \<open>
  The inner function \<open>threshold_func\<close>: it writes the parameter (unless the swept
  quantity is the intake rate) and returns the distance of the equilibrium value from the
  threshold, or \<open>np.nan\<close> when finding the equilibrium raises.  It never raises itself.
\<close>

definition threshold_func ::
  "ode_solver \<Rightarrow> root_solver \<Rightarrow> string \<Rightarrow> nat \<Rightarrow> real \<Rightarrow> real \<Rightarrow> model \<Rightarrow> float64 \<times> model" where
  "threshold_func solve_ivp fsolve param_name var_idx threshold_value p_val s =
     (let s1 = (if param_name = ''I'' then s else params_setitem param_name p_val s);
          I_const = (if param_name = ''I'' then p_val else 0)
      in case steady_state solve_ivp fsolve I_const True s1 of
           (Inl e, s2) \<Rightarrow> (NaN, s2)
         | (Inr y_ss, s2) \<Rightarrow> (Finite (component var_idx y_ss - threshold_value), s2))"

text \<open>
  The scalar root finder \<open>scipy.optimize.brentq\<close> is outside the repository.  It
  calls its function argument at a sequence of points of its choosing and returns a root
  or raises; it is a parameter of the model, given by the function's values, the two
  endpoints, and returning that sequence of points together with the outcome.  The model
  after the call is the model after \<open>threshold_func\<close> has run at each of those points
  in turn.
\<close>

type_synonym bracket_solver = "(real \<Rightarrow> float64) \<Rightarrow> real \<Rightarrow> real \<Rightarrow> real list \<times> (error + real)"

text \<open>\<open>BifurcationAnalyzer.critical_transition_threshold\<close>; the result \<open>None\<close> is "not found".\<close>

definition critical_transition_threshold ::
  "ode_solver \<Rightarrow> root_solver \<Rightarrow> bracket_solver \<Rightarrow> string \<Rightarrow> real \<times> real \<Rightarrow> string \<Rightarrow> real
     \<Rightarrow> real option action" where
  "critical_transition_threshold solve_ivp fsolve brentq param_name param_range threshold_var
       threshold_value s =
     (case var_indices threshold_var of
        Inl e \<Rightarrow> (Inl e, s)
      | Inr var_idx \<Rightarrow>
          (case threshold_func solve_ivp fsolve param_name var_idx threshold_value
                  (fst param_range) s of
             (val_min, s1) \<Rightarrow>
          (case threshold_func solve_ivp fsolve param_name var_idx threshold_value
                  (snd param_range) s1 of
             (val_max, s2) \<Rightarrow>
          (case val_min of
             NaN \<Rightarrow> (Inr None, s2)
           | Finite a \<Rightarrow>
          (case val_max of
             NaN \<Rightarrow> (Inr None, s2)
           | Finite b \<Rightarrow>
               if a * b > 0 then (Inr None, s2)
               else (case brentq (\<lambda>p_val. fst (threshold_func solve_ivp fsolve param_name var_idx
                                                 threshold_value p_val s2))
                            (fst param_range) (snd param_range) of
                       (probes, outcome) \<Rightarrow>
                         (let s3 = foldl (\<lambda>st p_val. snd (threshold_func solve_ivp fsolve param_name
                                                            var_idx threshold_value p_val st))
                                     s2 probes
                          in case outcome of
                               Inl e \<Rightarrow> (Inr None, s3)
                             | Inr critical_val \<Rightarrow> (Inr (Some critical_val), s3))))))))"

text \<open>Array helpers of \<open>hysteresis_loop\<close>: \<open>xs[0]\<close>, the column \<open>[:, 4]\<close>, boolean-mask
  selection, and the float operations with \<open>np.nan\<close> propagating.\<close>

definition first_item :: "real list \<Rightarrow> error + real" where
  "first_item xs =
     (case xs of
        [] \<Rightarrow> Inl (IndexError ''index 0 is out of bounds for axis 0 with size 0'')
      | x # rest \<Rightarrow> Inr x)"

definition column_D :: "row list \<Rightarrow> float64 list" where
  "column_D rows = map (\<lambda>r. case r of (r0, r1, r2, r3, r4) \<Rightarrow> r4) rows"

definition select :: "(real \<Rightarrow> bool) \<Rightarrow> real list \<Rightarrow> float64 list \<Rightarrow> float64 list" where
  "select keep ps ds = map snd (filter (\<lambda>pd. keep (fst pd)) (zip ps ds))"

definition fsub :: "float64 \<Rightarrow> float64 \<Rightarrow> float64" where
  "fsub x y = (case x of NaN \<Rightarrow> NaN
               | Finite a \<Rightarrow> (case y of NaN \<Rightarrow> NaN | Finite b \<Rightarrow> Finite (a - b)))"

definition fabs :: "float64 \<Rightarrow> float64" where
  "fabs x = (case x of NaN \<Rightarrow> NaN | Finite a \<Rightarrow> Finite \<bar>a\<bar>)"

text \<open>
  \<open>a - b\<close> on two one-dimensional arrays: equal lengths subtract elementwise, a
  one-element array is broadcast, any other pair of lengths raises \<open>ValueError\<close>.
\<close>

definition np_subtract :: "float64 list \<Rightarrow> float64 list \<Rightarrow> error + float64 list" where
  "np_subtract xs ys =
     (if length xs = length ys then Inr (map2 fsub xs ys)
      else if length xs = 1 then Inr (map (\<lambda>y. fsub (hd xs) y) ys)
      else if length ys = 1 then Inr (map (\<lambda>x. fsub x (hd ys)) xs)
      else Inl (ValueError ''operands could not be broadcast together''))"

text \<open>\<open>np.nanmax\<close>: the maximum of the entries that are not \<open>np.nan\<close>; \<open>np.nan\<close> when
  there is none; an empty array raises.\<close>

definition finite_values :: "float64 list \<Rightarrow> real list" where
  "finite_values xs = concat (map (\<lambda>x. case x of NaN \<Rightarrow> [] | Finite v \<Rightarrow> [v]) xs)"

definition np_nanmax :: "float64 list \<Rightarrow> error + float64" where
  "np_nanmax xs =
     (if xs = []
      then Inl (ValueError ''zero-size array to reduction operation fmax which has no identity'')
      else (case finite_values xs of
              [] \<Rightarrow> Inr NaN
            | v # vs \<Rightarrow> Inr (Finite (foldl max v vs))))"

text \<open>The dictionary returned by \<open>hysteresis_loop\<close>.\<close>

record hysteresis_result =
  hr_up_sweep :: continuation_result
  hr_down_sweep :: continuation_result
  hr_hysteresis_width :: float64

text \<open>The width computation of \<open>hysteresis_loop\<close>, after the two sweeps.\<close>

definition hysteresis_width ::
  "real list \<Rightarrow> real list \<Rightarrow> float64 list \<Rightarrow> float64 list \<Rightarrow> error + float64" where
  "hysteresis_width param_range_up param_range_down D_up D_down =
     and_then (first_item param_range_up) (\<lambda>up_first.
     and_then (last_item param_range_down) (\<lambda>down_last.
       let p_min = max up_first down_last in
     and_then (last_item param_range_up) (\<lambda>up_last.
     and_then (first_item param_range_down) (\<lambda>down_first.
       let p_max = min up_last down_first in
       if p_max > p_min
       then (let overlap = (\<lambda>p. p \<ge> p_min \<and> p \<le> p_max)
             in if list_ex overlap param_range_up \<and> list_ex overlap param_range_down
                then and_then (np_subtract (select overlap param_range_up D_up)
                                 (select overlap param_range_down D_down)) (\<lambda>diff.
                     np_nanmax (map fabs diff))
                else Inr (Finite 0))
       else Inr (Finite 0)))))"

text \<open>\<open>BifurcationAnalyzer.hysteresis_loop\<close>.\<close>

definition hysteresis_loop ::
  "ode_solver \<Rightarrow> root_solver \<Rightarrow> eig_solver \<Rightarrow> real list \<Rightarrow> real list \<Rightarrow> string
     \<Rightarrow> hysteresis_result action" where
  "hysteresis_loop solve_ivp fsolve eig param_range_up param_range_down param_name s =
     (case continuation_1d solve_ivp fsolve eig param_name param_range_up True True s of
        (Inl e, s1) \<Rightarrow> (Inl e, s1)
      | (Inr up_sweep, s1) \<Rightarrow>
          (case continuation_1d solve_ivp fsolve eig param_name param_range_down True True s1 of
             (Inl e, s2) \<Rightarrow> (Inl e, s2)
           | (Inr down_sweep, s2) \<Rightarrow>
               (let D_up = column_D (cr_steady_states up_sweep);
                    D_down = column_D (cr_steady_states down_sweep)
                in case hysteresis_width param_range_up param_range_down D_up D_down of
                     Inl e \<Rightarrow> (Inl e, s2)
                   | Inr width \<Rightarrow>
                       (Inr \<lparr>hr_up_sweep = up_sweep, hr_down_sweep = down_sweep,
                             hr_hysteresis_width = width\<rparr>, s2))))"

section \<open>Stand-ins for the external numerical routines\<close>

text \<open>
  Concrete routines on which the model can be run.  The integrator reports failure
  when the nicotine derivative at the start exceeds \<open>1/2\<close> and otherwise holds the
  initial state over the evaluation grid; the root finder returns its initial guess; the
  eigen-decomposition returns the diagonal of the matrix.
\<close>

definition stub_solve_ivp :: ode_solver where
  "stub_solve_ivp f t_span y0 method t_eval rtol atol =
     (case f (fst t_span) y0 of
        Inl e \<Rightarrow> Inl e
      | Inr d \<Rightarrow>
          if component 0 d > 1 / 2
          then Inr \<lparr>sol_success = False, sol_message = ''Excess work done on this call.'',
                    sol_t = [], sol_y = ([], [], [], [], [])\<rparr>
          else (case y0 of (y_0, y_1, y_2, y_3, y_4) \<Rightarrow>
                  Inr \<lparr>sol_success = True, sol_message = ''The solver successfully reached the end.'',
                       sol_t = t_eval,
                       sol_y = (map (\<lambda>t. y_0) t_eval, map (\<lambda>t. y_1) t_eval, map (\<lambda>t. y_2) t_eval,
                                map (\<lambda>t. y_3) t_eval, map (\<lambda>t. y_4) t_eval)\<rparr>))"

definition stub_fsolve :: root_solver where
  "stub_fsolve f x0 = Inr x0"

definition stub_eig :: eig_solver where
  "stub_eig A = Inr (map (\<lambda>i. complex_of_real (A ! i ! i)) [0..<length A], [])"

text \<open>
  A bracketing root finder that evaluates the two endpoints and answers with an endpoint
  that is a root, else with the midpoint, or raises when the bracket is invalid.
\<close>

definition stub_brentq :: bracket_solver where
  "stub_brentq f a b =
     ([a, b],
      (case f a of
         NaN \<Rightarrow> Inl (ValueError ''The function value at x=a is NaN; solver cannot continue.'')
       | Finite fa \<Rightarrow>
      (case f b of
         NaN \<Rightarrow> Inl (ValueError ''The function value at x=b is NaN; solver cannot continue.'')
       | Finite fb \<Rightarrow>
           if fa * fb > 0 then Inl (ValueError ''f(a) and f(b) must have different signs'')
           else if fa = 0 then Inr a
           else if fb = 0 then Inr b
           else Inr ((a + b) / 2))))"

section \<open>Basic facts\<close>

lemma and_then_simps [simp]:
  "and_then (Inl e) f = Inl e"
  "and_then (Inr x) f = f x"
  by (simp_all add: and_then_def)

lemma getitem_default [simp]:
  "getitem default_parameters ''k_N'' = Inr (6 / 100)"
  "getitem default_parameters ''k_on'' = Inr (5 / 10)"
  "getitem default_parameters ''k_off'' = Inr (1 / 10)"
  "getitem default_parameters ''k_des'' = Inr (5 / 100)"
  "getitem default_parameters ''k_res'' = Inr (1 / 100)"
  "getitem default_parameters ''k_D'' = Inr 1"
  "getitem default_parameters ''k_clear'' = Inr (5 / 10)"
  "getitem default_parameters ''epsilon'' = Inr (1 / 10000)"
  "getitem default_parameters ''D_0'' = Inr (5 / 10)"
  "getitem default_parameters ''R_T_0'' = Inr 1"
  by (simp_all add: getitem_def default_parameters_def)

lemma baseline_state_default: "baseline_state default_parameters = Inr (0, 0, 0, 1, 1 / 2)"
  by (simp add: baseline_state_def)

lemma dynamics_default:
  "dynamics default_parameters t (N, R_a, R_d, R_T, D) input_func =
     Inr (input_func t - 6 / 100 * N,
          5 / 10 * N * max 0 (R_T - R_a - R_d) - 1 / 10 * R_a - 5 / 100 * R_a,
          5 / 100 * R_a - 1 / 100 * R_d,
          1 / 10000 * (D - 5 / 10),
          1 * R_a - 5 / 10 * D)"
  by (simp add: dynamics_def Let_def)

lemma jacobian_default:
  "jacobian default_parameters (N, R_a, R_d, R_T, D) I_const =
     Inr [[- (6 / 100), 0, 0, 0, 0],
          [5 / 10 * (R_T - R_a - R_d), - (5 / 10) * N - 1 / 10 - 5 / 100, - (5 / 10) * N, 5 / 10 * N, 0],
          [0, 5 / 100, - (1 / 100), 0, 0],
          [0, 0, 0, 0, 1 / 10000],
          [0, 1, 0, 0, - (5 / 10)]]"
  by (simp add: jacobian_def Let_def)

lemma snd_simulate [simp]:
  "snd (simulate solve_ivp t_span input_func y0 t_eval method s) = s"
  by (simp add: simulate_def Let_def split: sum.split option.split prod.split)

lemma snd_steady_state [simp]:
  "snd (steady_state solve_ivp fsolve I_const include_upregulation s) = s"
proof -
  have sim: "\<And>r s1 span f y0. simulate solve_ivp span f y0 None ''LSODA'' s = (r, s1) \<Longrightarrow> s1 = s"
    by (metis snd_simulate snd_conv)
  show ?thesis
    by (auto simp add: steady_state_def split: sum.split prod.split dest: sim)
qed

lemma steady_state_state:
  "steady_state solve_ivp fsolve I_const include_upregulation s = (r, s') \<Longrightarrow> s' = s"
  by (metis snd_steady_state snd_conv)

lemma snd_eigenanalysis [simp]: "snd (eigenanalysis eig y I_const s) = s"
  by (simp add: eigenanalysis_def Let_def split: sum.split prod.split)

lemma eigenanalysis_state: "eigenanalysis eig y I_const s = (r, s') \<Longrightarrow> s' = s"
  by (metis snd_eigenanalysis snd_conv)

lemma params_params_setitem [simp]: "params (params_setitem k v s) = (params s)(k \<mapsto> v)"
  by (simp add: params_setitem_def)

lemma params_setitem_twice [simp]:
  "params_setitem k v (params_setitem k w s) = params_setitem k v s"
  by (simp add: params_setitem_def)

lemma params_setitem_same: "params s k = Some v \<Longrightarrow> params_setitem k v s = s"
  by (simp add: params_setitem_def map_upd_triv)

section \<open>The baseline under zero intake\<close>

text \<open>
  C1.  With the default parameters the derivative at the baseline state
  \<open>[0, 0, 0, R_T_0, D_0]\<close> under zero intake is \<open>[0, 0, 0, 0, -1/4]\<close> at every time
  \<open>t\<close>: the dopamine component is \<open>k_D * 0 - k_clear * D_0 = -0.25\<close>, so the baseline
  is not an equilibrium of the code's right-hand side.
\<close>

theorem baseline_derivative_default:
  "and_then (baseline_state default_parameters)
     (\<lambda>y0. dynamics default_parameters t y0 (\<lambda>t. 0)) = Inr (0, 0, 0, 0, - (1 / 4))"
  by (simp add: baseline_state_default dynamics_default)

text \<open>
  C3.  With the default parameters the Jacobian at the baseline under zero intake has
  an all-zero \<open>R_T\<close> column, so \<open>0\<close> is an eigenvalue (eigenvector the \<open>R_T\<close> unit
  vector): not every eigenvalue has a strictly negative real part.
\<close>

theorem baseline_jacobian_zero_eigenvalue:
  "and_then (baseline_state default_parameters)
     (\<lambda>y0. and_then (jacobian default_parameters y0 0)
        (\<lambda>J. Inr (is_eigenpair J 0 [0, 0, 0, 1, 0] \<and> \<not> Re 0 < 0))) = Inr True"
  by (simp add: baseline_state_default jacobian_default is_eigenpair_def mat_vec_def)

section \<open>Frame properties of the model's own methods\<close>

text \<open>
  C10.  \<open>simulate\<close> and \<open>steady_state\<close> never modify the model's parameter mapping:
  for every integrator and root finder, time span, intake function, initial state,
  evaluation grid, method, constant intake and upregulation flag, the mapping after the
  call, whether it returns or raises, is the mapping before the call.
\<close>

theorem simulate_steady_state_preserve_params:
  "params (snd (simulate solve_ivp t_span input_func y0 t_eval method s)) = params s \<and>
   params (snd (steady_state solve_ivp fsolve I_const include_upregulation s)) = params s"
  by simp

section \<open>One-parameter continuation\<close>

lemma steady_state_pair:
  "steady_state solve_ivp fsolve I_const include_upregulation s =
     (fst (steady_state solve_ivp fsolve I_const include_upregulation s), s)"
  by (metis prod.collapse snd_steady_state)

lemma eigenanalysis_pair:
  "eigenanalysis eig y I_const s = (fst (eigenanalysis eig y I_const s), s)"
  by (metis prod.collapse snd_eigenanalysis)

lemma update_first_fresh:
  "length xs = i \<Longrightarrow> (xs @ replicate (Suc m) z)[i := v] = xs @ v # replicate m z"
  by (simp add: list_update_append)

lemma update_first_again:
  "length xs = i \<Longrightarrow> (xs @ w # ys)[i := v] = xs @ v # ys"
  by (simp add: list_update_append)

lemma continuation_step_eq:
  assumes t: "t = s \<or> (param_name \<noteq> ''I'' \<and> t = params_setitem param_name q s)"
    and len: "length rows = i" "length flags = i" "length eigs = i"
  shows "continuation_step solve_ivp fsolve eig param_name include_upregulation track_stability
           (param_name = ''I'') (i, p_val)
           ((rows @ replicate (Suc m) zero_row, flags @ replicate (Suc m) False,
             eigs @ replicate (Suc m) (Finite 0)), t) =
         (let pt = continuation_point solve_ivp fsolve eig param_name include_upregulation
                     track_stability s p_val
          in ((rows @ point_row pt # replicate m zero_row,
               flags @ point_stable pt # replicate m False,
               eigs @ point_max_eig pt # replicate m (Finite 0)),
              if param_name = ''I'' then s else params_setitem param_name p_val s))"
proof -
  let ?s1 = "if param_name = ''I'' then s else params_setitem param_name p_val s"
  let ?I = "if param_name = ''I'' then p_val else 0"
  have s1: "(if param_name = ''I'' then t else params_setitem param_name p_val t) = ?s1"
    using t by auto
  obtain r where ss: "steady_state solve_ivp fsolve ?I include_upregulation ?s1 = (r, ?s1)"
    using steady_state_pair by blast
  show ?thesis
  proof (cases r)
    case (Inl e)
    with ss len s1 show ?thesis
      by (simp add: continuation_step_def continuation_point_def Let_def point_row_def
          point_stable_def point_max_eig_def update_first_fresh del: replicate.simps)
  next
    case (Inr y_ss)
    obtain r2 where ea: "eigenanalysis eig y_ss ?I ?s1 = (r2, ?s1)"
      using eigenanalysis_pair by blast
    show ?thesis
    proof (cases track_stability)
      case False
      with ss Inr len s1 show ?thesis
        by (simp add: continuation_step_def continuation_point_def Let_def point_row_def
            point_stable_def point_max_eig_def update_first_fresh del: replicate.simps)
          (simp)
    next
      case True
      show ?thesis
      proof (cases r2)
        case (Inl e)
        with ss Inr True ea len s1 show ?thesis
          by (simp add: continuation_step_def continuation_point_def Let_def point_row_def
              point_stable_def point_max_eig_def update_first_fresh update_first_again
              del: replicate.simps)
      next
        case eigen: (Inr eigen)
        with ss Inr True ea len s1 show ?thesis
          by (cases "np_max (er_real_parts eigen)")
            (simp_all add: continuation_step_def continuation_point_def Let_def point_row_def
              point_stable_def point_max_eig_def update_first_fresh update_first_again
              del: replicate.simps)
      qed
    qed
  qed
qed

lemma continuation_loop_eq:
  assumes "t = s \<or> (param_name \<noteq> ''I'' \<and> t = params_setitem param_name q s)"
    and "length rows = i" "length flags = i" "length eigs = i"
  shows "foldl (\<lambda>st ip. continuation_step solve_ivp fsolve eig param_name include_upregulation
                          track_stability (param_name = ''I'') ip st)
           ((rows @ replicate (length ps + m) zero_row, flags @ replicate (length ps + m) False,
             eigs @ replicate (length ps + m) (Finite 0)), t) (enumerate i ps) =
         ((rows @ map (\<lambda>p. point_row (continuation_point solve_ivp fsolve eig param_name
                               include_upregulation track_stability s p)) ps @ replicate m zero_row,
           flags @ map (\<lambda>p. point_stable (continuation_point solve_ivp fsolve eig param_name
                               include_upregulation track_stability s p)) ps @ replicate m False,
           eigs @ map (\<lambda>p. point_max_eig (continuation_point solve_ivp fsolve eig param_name
                               include_upregulation track_stability s p)) ps @ replicate m (Finite 0)),
          if ps = [] \<or> param_name = ''I'' then t else params_setitem param_name (last ps) s)"
  using assms
proof (induction ps arbitrary: rows flags eigs i t q)
  case Nil
  then show ?case by simp
next
  case (Cons p ps)
  let ?pt = "continuation_point solve_ivp fsolve eig param_name include_upregulation
               track_stability s p"
  let ?t' = "if param_name = ''I'' then s else params_setitem param_name p s"
  have step: "continuation_step solve_ivp fsolve eig param_name include_upregulation track_stability
           (param_name = ''I'') (i, p)
           ((rows @ replicate (Suc (length ps + m)) zero_row,
             flags @ replicate (Suc (length ps + m)) False,
             eigs @ replicate (Suc (length ps + m)) (Finite 0)), t) =
         (((rows @ [point_row ?pt]) @ replicate (length ps + m) zero_row,
           (flags @ [point_stable ?pt]) @ replicate (length ps + m) False,
           (eigs @ [point_max_eig ?pt]) @ replicate (length ps + m) (Finite 0)), ?t')"
    using continuation_step_eq [OF Cons.prems, of solve_ivp fsolve eig include_upregulation
        track_stability p "length ps + m"]
    by (simp add: Let_def)
  have t': "?t' = s \<or> (param_name \<noteq> ''I'' \<and> ?t' = params_setitem param_name p s)"
    by simp
  have ts: "param_name = ''I'' \<Longrightarrow> t = s"
    using Cons.prems(1) by auto
  show ?case
    using Cons.IH [OF t', of "rows @ [point_row ?pt]" "Suc i" "flags @ [point_stable ?pt]"
        "eigs @ [point_max_eig ?pt]"] Cons.prems(2-4) ts
    by (simp add: step del: replicate.simps)
qed

lemma continuation_1d_eq:
  "continuation_1d solve_ivp fsolve eig param_name param_range include_upregulation
       track_stability s =
     (Inr \<lparr>cr_param_values = param_range,
           cr_steady_states =
             map (\<lambda>p. point_row (continuation_point solve_ivp fsolve eig param_name
                         include_upregulation track_stability s p)) param_range,
           cr_stability =
             (if track_stability
              then Some (map (\<lambda>p. point_stable (continuation_point solve_ivp fsolve eig param_name
                                     include_upregulation track_stability s p)) param_range)
              else None),
           cr_max_eigenvalue =
             (if track_stability
              then Some (map (\<lambda>p. point_max_eig (continuation_point solve_ivp fsolve eig param_name
                                     include_upregulation track_stability s p)) param_range)
              else None)\<rparr>,
      if param_name = ''I'' \<or> param_range = [] \<or> param_name \<in> dom (params s) then s
      else params_setitem param_name (last param_range) s)"
proof -
  have loop: "foldl (\<lambda>st ip. continuation_step solve_ivp fsolve eig param_name include_upregulation
                          track_stability (param_name = ''I'') ip st)
           ((replicate (length param_range) zero_row, replicate (length param_range) False,
             replicate (length param_range) (Finite 0)), s) (enumerate 0 param_range) =
         ((map (\<lambda>p. point_row (continuation_point solve_ivp fsolve eig param_name
                               include_upregulation track_stability s p)) param_range,
           map (\<lambda>p. point_stable (continuation_point solve_ivp fsolve eig param_name
                               include_upregulation track_stability s p)) param_range,
           map (\<lambda>p. point_max_eig (continuation_point solve_ivp fsolve eig param_name
                               include_upregulation track_stability s p)) param_range),
          if param_range = [] \<or> param_name = ''I'' then s
          else params_setitem param_name (last param_range) s)"
    using continuation_loop_eq [of s s param_name 0 "[]" 0 "[]" "[]" solve_ivp fsolve eig
        include_upregulation track_stability param_range 0]
    by simp
  show ?thesis
    by (auto simp add: continuation_1d_def Let_def loop params_setitem_same
        split: option.split)
qed



text \<open>
  \<open>continuation_1d\<close> returns the model as it found it when the swept quantity is the
  intake rate or an existing key of the parameter mapping; for any other name and a
  non-empty range it leaves a new entry behind, holding the last sweep value.
\<close>

lemma continuation_1d_restores:
  assumes "param_name = ''I'' \<or> param_name \<in> dom (params s)"
  shows "snd (continuation_1d solve_ivp fsolve eig param_name param_range include_upregulation
                track_stability s) = s"
  using assms by (auto simp add: continuation_1d_eq)

lemma continuation_1d_new_entry:
  assumes "param_name \<noteq> ''I''" and "param_name \<notin> dom (params s)" and "param_range \<noteq> []"
  shows "snd (continuation_1d solve_ivp fsolve eig param_name param_range include_upregulation
                track_stability s) = params_setitem param_name (last param_range) s"
  using assms by (simp add: continuation_1d_eq)

section \<open>The model on the stand-in routines\<close>

lemma linspace_nonempty: "0 < n \<Longrightarrow> linspace a b n \<noteq> []"
  by (simp add: linspace_def)

lemma last_item_const [simp]: "xs \<noteq> [] \<Longrightarrow> last_item (map (\<lambda>t. c) xs) = Inr c"
  by (simp add: last_item_def last_map)

lemma stub_steady_state:
  "steady_state stub_solve_ivp stub_fsolve I_const include_upregulation s =
     (case baseline_state (params s) of
        Inl e \<Rightarrow> (Inl e, s)
      | Inr y0 \<Rightarrow>
          (case dynamics (params s) 0 y0 (\<lambda>t. I_const) of
             Inl e \<Rightarrow> (Inl e, s)
           | Inr d \<Rightarrow>
               if component 0 d > 1 / 2
               then (Inl (RuntimeError ''Integration failed: Excess work done on this call.''), s)
               else (Inr y0, s)))"
  by (auto simp add: steady_state_def simulate_def stub_solve_ivp_def stub_fsolve_def Let_def
        linspace_nonempty split: sum.split prod.split)

lemma params_default_model [simp]: "params (NicotineRewardModel None) = default_parameters"
  by (simp add: NicotineRewardModel_def)

lemma stub_steady_state_default:
  "steady_state stub_solve_ivp stub_fsolve I_const include_upregulation (NicotineRewardModel None) =
     (if I_const > 1 / 2
      then Inl (RuntimeError ''Integration failed: Excess work done on this call.'')
      else Inr (0, 0, 0, 1, 1 / 2), NicotineRewardModel None)"
  by (simp add: stub_steady_state baseline_state_default dynamics_default component_def)

lemma stub_eigenanalysis_baseline:
  "eigenanalysis stub_eig (0, 0, 0, 1, 1 / 2) I_const (NicotineRewardModel None) =
     (Inr \<lparr>er_eigenvalues = [- (6 / 100), - (15 / 100), - (1 / 100), 0, - (5 / 10)],
           er_eigenvectors = [],
           er_timescales = [Finite (100 / 6), Finite (100 / 15), Finite 100, NaN, Finite 2],
           er_is_stable = False,
           er_real_parts = [- (6 / 100), - (15 / 100), - (1 / 100), 0, - (5 / 10)],
           er_imag_parts = [0, 0, 0, 0, 0]\<rparr>, NicotineRewardModel None)"
  by (simp add: eigenanalysis_def jacobian_default stub_eig_def Let_def upt_rec)

lemma point_ok:
  "p \<le> 1 / 2 \<Longrightarrow> continuation_point stub_solve_ivp stub_fsolve stub_eig ''I'' True True (NicotineRewardModel None) p
    = Inr ((0, 0, 0, 1, 1 / 2), False, Finite 0)"
  by (simp add: continuation_point_def stub_steady_state_default stub_eigenanalysis_baseline np_max_def)

lemma point_fail:
  "p > 1 / 2 \<Longrightarrow> continuation_point stub_solve_ivp stub_fsolve stub_eig ''I'' True True (NicotineRewardModel None) p
    = Inl (RuntimeError ''Integration failed: Excess work done on this call.'')"
  by (simp add: continuation_point_def stub_steady_state_default)

text \<open>
  C5.  For every parameter name and every input range, \<open>continuation_1d\<close> returns
  normally, and its output arrays have exactly one entry per element of the range, at the
  same index: entry \<open>i\<close> is the NaN row, \<open>False\<close> and NaN when the computation for
  element \<open>i\<close> raised, and the computed steady state, stability flag and leading
  eigenvalue otherwise.  The stability arrays are part of the result exactly when
  stability is tracked.
\<close>

theorem continuation_1d_index_aligned:
  "\<exists>r s'.
     continuation_1d solve_ivp fsolve eig param_name param_range include_upregulation
       track_stability s = (Inr r, s') \<and>
     cr_param_values r = param_range \<and>
     length (cr_steady_states r) = length param_range \<and>
     (\<forall>i < length param_range.
        cr_steady_states r ! i =
          (case continuation_point solve_ivp fsolve eig param_name include_upregulation
                  track_stability s (param_range ! i) of
             Inl e \<Rightarrow> nan_row
           | Inr (y_ss, flag, m) \<Rightarrow> row_of y_ss)) \<and>
     (if track_stability
      then \<exists>flags eigs.
             cr_stability r = Some flags \<and> cr_max_eigenvalue r = Some eigs \<and>
             length flags = length param_range \<and> length eigs = length param_range \<and>
             (\<forall>i < length param_range.
                case continuation_point solve_ivp fsolve eig param_name include_upregulation
                       track_stability s (param_range ! i) of
                  Inl e \<Rightarrow> flags ! i = False \<and> eigs ! i = NaN
                | Inr (y_ss, flag, m) \<Rightarrow> flags ! i = flag \<and> eigs ! i = m)
      else cr_stability r = None \<and> cr_max_eigenvalue r = None)"
  by (simp add: continuation_1d_eq point_row_def point_stable_def point_max_eig_def
      split: sum.split)

theorem continuation_1d_index_aligned_witness:
  "\<exists>r s'.
     continuation_1d stub_solve_ivp stub_fsolve stub_eig ''I'' [0, 3 / 5] True True
       (NicotineRewardModel None) = (Inr r, s') \<and>
     cr_param_values r = [0, 3 / 5] \<and>
     length (cr_steady_states r) = 2 \<and>
     cr_steady_states r ! 0 = row_of (0, 0, 0, 1, 1 / 2) \<and>
     cr_steady_states r ! 1 = nan_row \<and>
     (\<exists>flags eigs.
        cr_stability r = Some flags \<and> cr_max_eigenvalue r = Some eigs \<and>
        length flags = 2 \<and> length eigs = 2 \<and>
        flags ! 0 = False \<and> eigs ! 0 = Finite 0 \<and> flags ! 1 = False \<and> eigs ! 1 = NaN)"
  using continuation_1d_index_aligned [of stub_solve_ivp stub_fsolve stub_eig "''I''"
      "[0, 3 / 5]" True True "NicotineRewardModel None"]
  by (auto simp add: point_ok point_fail less_Suc_eq)



section \<open>Parameter sensitivity\<close>

lemma sensitivity_step_eq:
  assumes "t = s \<or> t = params_setitem param_name q s"
  shows "sensitivity_step solve_ivp fsolve eig param_name I_const include_upregulation p_val
           ((xs, bs), t) =
         ((xs @ [case sensitivity_point solve_ivp fsolve eig param_name I_const
                        include_upregulation s p_val of
                   Inl e \<Rightarrow> NaN
                 | Inr (m, flag) \<Rightarrow> m],
           bs @ [case sensitivity_point solve_ivp fsolve eig param_name I_const
                        include_upregulation s p_val of
                   Inl e \<Rightarrow> False
                 | Inr (m, flag) \<Rightarrow> flag]),
          params_setitem param_name p_val s)"
proof -
  let ?s1 = "params_setitem param_name p_val s"
  have s1: "params_setitem param_name p_val t = ?s1"
    using assms by auto
  obtain r where ss: "steady_state solve_ivp fsolve I_const include_upregulation ?s1 = (r, ?s1)"
    using steady_state_pair by blast
  show ?thesis
  proof (cases r)
    case (Inl e)
    with ss s1 show ?thesis
      by (simp add: sensitivity_step_def sensitivity_point_def Let_def)
  next
    case (Inr y_ss)
    obtain r2 where ea: "eigenanalysis eig y_ss I_const ?s1 = (r2, ?s1)"
      using eigenanalysis_pair by blast
    show ?thesis
    proof (cases r2)
      case (Inl e)
      with ss Inr ea s1 show ?thesis
        by (simp add: sensitivity_step_def sensitivity_point_def Let_def)
    next
      case eigen: (Inr eigen)
      with ss Inr ea s1 show ?thesis
        by (cases "np_max (er_real_parts eigen)")
          (simp_all add: sensitivity_step_def sensitivity_point_def Let_def)
    qed
  qed
qed

lemma sensitivity_loop_eq:
  assumes "t = s \<or> t = params_setitem param_name q s"
  shows "foldl (\<lambda>st p_val. sensitivity_step solve_ivp fsolve eig param_name I_const
                             include_upregulation p_val st) ((xs, bs), t) ps =
         ((xs @ map (\<lambda>p. case sensitivity_point solve_ivp fsolve eig param_name I_const
                                include_upregulation s p of
                           Inl e \<Rightarrow> NaN
                         | Inr (m, flag) \<Rightarrow> m) ps,
           bs @ map (\<lambda>p. case sensitivity_point solve_ivp fsolve eig param_name I_const
                                include_upregulation s p of
                           Inl e \<Rightarrow> False
                         | Inr (m, flag) \<Rightarrow> flag) ps),
          if ps = [] then t else params_setitem param_name (last ps) s)"
  using assms
proof (induction ps arbitrary: xs bs t q)
  case Nil
  then show ?case by simp
next
  case (Cons p ps)
  have t': "params_setitem param_name p s = s \<or>
            params_setitem param_name p s = params_setitem param_name p s"
    by simp
  show ?case
    by (simp add: sensitivity_step_eq [OF Cons.prems] Cons.IH [OF t'])
qed

text \<open>
  C6.  For every name that is a key of the parameter mapping and every sweep range,
  \<open>parameter_sensitivity\<close> returns normally and leaves the model exactly as it was
  before the call, whatever the integrator, the root finder and the eigen-decomposition
  do at each sweep value (raise or return).  Each output array has one entry per sweep
  value, at the same index: NaN and \<open>False\<close> where the computation for that value
  raised, the leading eigenvalue and the stability flag otherwise.
\<close>

theorem parameter_sensitivity_restores:
  assumes "param_name \<in> dom (params s)"
  shows "\<exists>r. parameter_sensitivity solve_ivp fsolve eig param_name param_range I_const
                include_upregulation s = (Inr r, s) \<and>
             sr_param_values r = param_range \<and>
             length (sr_max_real_eigenvalue r) = length param_range \<and>
             length (sr_is_stable r) = length param_range \<and>
             (\<forall>i < length param_range.
                case sensitivity_point solve_ivp fsolve eig param_name I_const
                       include_upregulation s (param_range ! i) of
                  Inl e \<Rightarrow> sr_max_real_eigenvalue r ! i = NaN \<and> sr_is_stable r ! i = False
                | Inr (m, flag) \<Rightarrow> sr_max_real_eigenvalue r ! i = m \<and> sr_is_stable r ! i = flag)"
proof -
  from assms obtain v where v: "params s param_name = Some v"
    by auto
  have loop: "foldl (\<lambda>st p_val. sensitivity_step solve_ivp fsolve eig param_name I_const
                             include_upregulation p_val st) (([], []), s) param_range =
         ((map (\<lambda>p. case sensitivity_point solve_ivp fsolve eig param_name I_const
                                include_upregulation s p of
                           Inl e \<Rightarrow> NaN
                         | Inr (m, flag) \<Rightarrow> m) param_range,
           map (\<lambda>p. case sensitivity_point solve_ivp fsolve eig param_name I_const
                                include_upregulation s p of
                           Inl e \<Rightarrow> False
                         | Inr (m, flag) \<Rightarrow> flag) param_range),
          if param_range = [] then s else params_setitem param_name (last param_range) s)"
    using sensitivity_loop_eq [of s s param_name 0 solve_ivp fsolve eig I_const
        include_upregulation "[]" "[]" param_range]
    by simp
  show ?thesis
    using v
    by (simp add: parameter_sensitivity_def getitem_def loop Let_def params_setitem_same
        split: sum.split)
qed

lemma stub_sensitivity_point:
  "sensitivity_point stub_solve_ivp stub_fsolve stub_eig ''k_des'' (3 / 5) True
     (NicotineRewardModel None) p =
   Inl (RuntimeError ''Integration failed: Excess work done on this call.'')"
  by (simp add: sensitivity_point_def stub_steady_state baseline_state_def dynamics_def
      getitem_def default_parameters_def component_def Let_def)

theorem parameter_sensitivity_restores_witness:
  "''k_des'' \<in> dom (params (NicotineRewardModel None)) \<and>
   (\<exists>r. parameter_sensitivity stub_solve_ivp stub_fsolve stub_eig ''k_des'' [1 / 100, 1 / 10] (3 / 5)
           True (NicotineRewardModel None) = (Inr r, NicotineRewardModel None) \<and>
        sr_param_values r = [1 / 100, 1 / 10] \<and>
        length (sr_max_real_eigenvalue r) = 2 \<and>
        length (sr_is_stable r) = 2 \<and>
        sr_max_real_eigenvalue r ! 0 = NaN \<and> sr_is_stable r ! 0 = False \<and>
        sr_max_real_eigenvalue r ! 1 = NaN \<and> sr_is_stable r ! 1 = False)"
  using parameter_sensitivity_restores [of "''k_des''" "NicotineRewardModel None"
      stub_solve_ivp stub_fsolve stub_eig "[1 / 100, 1 / 10]" "3 / 5" True]
  by (auto simp add: default_parameters_def stub_sensitivity_point less_Suc_eq)


section \<open>Threshold search and identifiers\<close>

lemma snd_threshold_func [simp]:
  "snd (threshold_func solve_ivp fsolve param_name var_idx threshold_value p_val s) =
     (if param_name = ''I'' then s else params_setitem param_name p_val s)"
  by (auto simp add: threshold_func_def Let_def split: prod.split sum.split
        dest!: steady_state_state)

lemma threshold_func_state:
  "threshold_func solve_ivp fsolve param_name var_idx threshold_value p_val s = (v, s') \<Longrightarrow>
     s' = (if param_name = ''I'' then s else params_setitem param_name p_val s)"
  using snd_threshold_func [of solve_ivp fsolve param_name var_idx threshold_value p_val s]
  by simp

lemma threshold_func_value:
  "fst (threshold_func solve_ivp fsolve param_name var_idx threshold_value p_val
          (snd (threshold_func solve_ivp fsolve param_name var_idx threshold_value q s))) =
   fst (threshold_func solve_ivp fsolve param_name var_idx threshold_value p_val s)"
  apply (simp only: snd_threshold_func)
  apply (simp add: threshold_func_def Let_def)
  done

lemma threshold_func_pair:
  "threshold_func solve_ivp fsolve param_name var_idx threshold_value p_val s =
     (fst (threshold_func solve_ivp fsolve param_name var_idx threshold_value p_val s),
      if param_name = ''I'' then s else params_setitem param_name p_val s)"
  by (simp add: prod_eq_iff)

lemma threshold_probes_state:
  "foldl (\<lambda>st p_val. snd (threshold_func solve_ivp fsolve param_name var_idx threshold_value
                             p_val st)) t probes =
     (if param_name = ''I'' \<or> probes = [] then t
      else params_setitem param_name (last probes) t)"
  by (induction probes arbitrary: t) auto

lemma zero_less_product: "(0 < a * b) = ((0 < a \<and> 0 < b) \<or> (a < 0 \<and> b < (0::real)))"
  by (simp add: zero_less_mult_iff)

lemma critical_transition_threshold_eq:
  assumes "var_indices threshold_var = Inr var_idx"
  shows "critical_transition_threshold solve_ivp fsolve brentq param_name (lo, hi)
           threshold_var threshold_value s =
         (let f = (\<lambda>p_val. fst (threshold_func solve_ivp fsolve param_name var_idx
                                    threshold_value p_val s));
              s2 = (if param_name = ''I'' then s else params_setitem param_name hi s)
          in case f lo of
               NaN \<Rightarrow> (Inr None, s2)
             | Finite a \<Rightarrow>
            (case f hi of
               NaN \<Rightarrow> (Inr None, s2)
             | Finite b \<Rightarrow>
                 if a * b > 0 then (Inr None, s2)
                 else (case snd (brentq f lo hi) of
                         Inl e \<Rightarrow> Inr None
                       | Inr critical_val \<Rightarrow> Inr (Some critical_val),
                       if param_name = ''I'' \<or> fst (brentq f lo hi) = [] then s2
                       else params_setitem param_name (last (fst (brentq f lo hi))) s)))"
proof -
  let ?f = "\<lambda>p_val t. threshold_func solve_ivp fsolve param_name var_idx threshold_value p_val t"
  let ?s1 = "if param_name = ''I'' then s else params_setitem param_name lo s"
  let ?s2 = "if param_name = ''I'' then s else params_setitem param_name hi s"
  have lo: "?f lo s = (fst (?f lo s), ?s1)"
    by (rule threshold_func_pair)
  have "fst (?f hi ?s1) = fst (?f hi s)"
    using threshold_func_value [of solve_ivp fsolve param_name var_idx threshold_value hi lo s]
    by (simp only: snd_threshold_func)
  moreover have "snd (?f hi ?s1) = ?s2"
    by (cases "param_name = ''I''") simp_all
  ultimately have hi: "?f hi ?s1 = (fst (?f hi s), ?s2)"
    by (simp only: prod_eq_iff fst_conv snd_conv simp_thms)
  have "\<And>p_val. fst (?f p_val ?s2) = fst (?f p_val s)"
    using threshold_func_value [of solve_ivp fsolve param_name var_idx threshold_value _ hi s]
    by (simp only: snd_threshold_func)
  then have f2: "(\<lambda>p_val. fst (?f p_val ?s2)) = (\<lambda>p_val. fst (?f p_val s))"
    by (simp only:)
  have probes: "\<And>probes. foldl (\<lambda>st p_val. snd (?f p_val st)) ?s2 probes =
      (if param_name = ''I'' \<or> probes = [] then ?s2
       else params_setitem param_name (last probes) s)"
    unfolding threshold_probes_state by auto
  show ?thesis
    unfolding critical_transition_threshold_def assms
    apply (simp only: sum.case fst_conv snd_conv)
    apply (subst lo)
    apply (simp only: prod.case)
    apply (subst hi)
    apply (simp only: prod.case f2 probes Let_def)
    apply (simp add: case_prod_beta split: float64.split sum.split)
    done
qed

text \<open>
  C8.  Let \<open>f(p)\<close> be what \<open>threshold_func\<close> returns at \<open>p\<close>: the equilibrium
  value of the threshold variable minus the threshold value, or NaN when finding the
  equilibrium fails.  For a known threshold variable, \<open>critical_transition_threshold\<close>
  returns not-found (\<open>None\<close>) whenever \<open>f\<close> is NaN at either endpoint or the two
  endpoint values are both positive or both negative; only otherwise is the bracketing
  root finder consulted, and the result is then its root, or not-found when it raises.
\<close>

theorem critical_transition_threshold_result:
  assumes "var_indices threshold_var = Inr var_idx"
  shows "fst (critical_transition_threshold solve_ivp fsolve brentq param_name (lo, hi)
                threshold_var threshold_value s) =
         (case fst (threshold_func solve_ivp fsolve param_name var_idx threshold_value lo s) of
            NaN \<Rightarrow> Inr None
          | Finite a \<Rightarrow>
         (case fst (threshold_func solve_ivp fsolve param_name var_idx threshold_value hi s) of
            NaN \<Rightarrow> Inr None
          | Finite b \<Rightarrow>
              if (0 < a \<and> 0 < b) \<or> (a < 0 \<and> b < 0) then Inr None
              else (case snd (brentq (\<lambda>p_val. fst (threshold_func solve_ivp fsolve param_name
                                                     var_idx threshold_value p_val s)) lo hi) of
                      Inl e \<Rightarrow> Inr None
                    | Inr critical_val \<Rightarrow> Inr (Some critical_val))))"
  by (simp add: critical_transition_threshold_eq [OF assms] Let_def zero_less_product
      split: float64.split)

lemma stub_threshold_func_intake:
  "threshold_func stub_solve_ivp stub_fsolve ''I'' 4 threshold_value p_val (NicotineRewardModel None) =
     (if p_val > 1 / 2 then NaN else Finite (1 / 2 - threshold_value), NicotineRewardModel None)"
  by (simp add: threshold_func_def stub_steady_state_default component_def)

theorem critical_transition_threshold_result_witness:
  "var_indices ''D'' = Inr 4 \<and>
   fst (threshold_func stub_solve_ivp stub_fsolve ''I'' 4 (1 / 4) 0 (NicotineRewardModel None)) =
     Finite (1 / 4) \<and>
   fst (threshold_func stub_solve_ivp stub_fsolve ''I'' 4 (1 / 4) (2 / 5) (NicotineRewardModel None)) =
     Finite (1 / 4) \<and>
   fst (critical_transition_threshold stub_solve_ivp stub_fsolve stub_brentq ''I'' (0, 2 / 5)
          ''D'' (1 / 4) (NicotineRewardModel None)) = Inr None"
  using critical_transition_threshold_result [of "''D''" 4 stub_solve_ivp stub_fsolve stub_brentq
      "''I''" 0 "2 / 5" "1 / 4" "NicotineRewardModel None"]
  by (simp add: var_indices_def stub_threshold_func_intake)


text \<open>
  C2.  \<open>critical_transition_threshold\<close> does not restore the parameter it overwrites.
  When the swept parameter is not the intake rate and the call takes one of its two early
  returns (an endpoint evaluation failed, or the endpoint values have the same sign), it
  returns not-found and leaves the model with the parameter set to the upper end of the
  search range, whatever its value was before the call.
\<close>

theorem critical_transition_threshold_overwrites:
  assumes "param_name \<noteq> ''I''" and "var_indices threshold_var = Inr var_idx"
    and "case fst (threshold_func solve_ivp fsolve param_name var_idx threshold_value lo s) of
           NaN \<Rightarrow> True
         | Finite a \<Rightarrow>
             (case fst (threshold_func solve_ivp fsolve param_name var_idx threshold_value hi s) of
                NaN \<Rightarrow> True
              | Finite b \<Rightarrow> 0 < a * b)"
  shows "critical_transition_threshold solve_ivp fsolve brentq param_name (lo, hi)
           threshold_var threshold_value s = (Inr None, params_setitem param_name hi s) \<and>
         params (snd (critical_transition_threshold solve_ivp fsolve brentq param_name (lo, hi)
                        threshold_var threshold_value s)) param_name = Some hi"
  using assms(1,3)
  by (simp add: critical_transition_threshold_eq [OF assms(2)] Let_def split: float64.splits)

lemma stub_steady_state_k_N:
  "steady_state stub_solve_ivp stub_fsolve 0 include_upregulation
     (params_setitem ''k_N'' v (NicotineRewardModel None)) =
   (Inr (0, 0, 0, 1, 1 / 2), params_setitem ''k_N'' v (NicotineRewardModel None))"
  by (simp add: stub_steady_state baseline_state_def dynamics_def getitem_def
      default_parameters_def component_def Let_def)

lemma stub_threshold_func_k_N:
  "fst (threshold_func stub_solve_ivp stub_fsolve ''k_N'' 4 threshold_value p_val
          (NicotineRewardModel None)) = Finite (1 / 2 - threshold_value)"
  by (simp add: threshold_func_def stub_steady_state_k_N component_def)

theorem critical_transition_threshold_overwrites_witness:
  "''k_N'' \<noteq> ''I'' \<and> var_indices ''D'' = Inr 4 \<and>
   fst (threshold_func stub_solve_ivp stub_fsolve ''k_N'' 4 1 (1 / 100) (NicotineRewardModel None)) =
     Finite (- (1 / 2)) \<and>
   fst (threshold_func stub_solve_ivp stub_fsolve ''k_N'' 4 1 (1 / 10) (NicotineRewardModel None)) =
     Finite (- (1 / 2)) \<and>
   critical_transition_threshold stub_solve_ivp stub_fsolve stub_brentq ''k_N'' (1 / 100, 1 / 10)
     ''D'' 1 (NicotineRewardModel None) =
     (Inr None, params_setitem ''k_N'' (1 / 10) (NicotineRewardModel None)) \<and>
   params (snd (critical_transition_threshold stub_solve_ivp stub_fsolve stub_brentq ''k_N''
                  (1 / 100, 1 / 10) ''D'' 1 (NicotineRewardModel None))) ''k_N'' = Some (1 / 10) \<and>
   params (NicotineRewardModel None) ''k_N'' = Some (6 / 100)"
  using critical_transition_threshold_overwrites [where param_name = "''k_N''"
      and threshold_var = "''D''" and var_idx = 4 and solve_ivp = stub_solve_ivp
      and fsolve = stub_fsolve and brentq = stub_brentq and threshold_value = 1
      and lo = "1 / 100" and hi = "1 / 10" and s = "NicotineRewardModel None"]
  by (simp add: var_indices_def stub_threshold_func_k_N default_parameters_def)

lemma parameter_sensitivity_unknown:
  "param_name \<notin> dom (params s) \<Longrightarrow>
     parameter_sensitivity solve_ivp fsolve eig param_name param_range I_const
       include_upregulation s = (Inl (KeyError param_name), s)"
  by (simp add: parameter_sensitivity_def getitem_def domIff)

lemma var_indices_unknown:
  "threshold_var \<notin> set [''N'', ''R_a'', ''R_d'', ''R_T'', ''D''] \<Longrightarrow>
     var_indices threshold_var = Inl (KeyError threshold_var)"
  by (simp add: var_indices_def)

lemma var_indices_known:
  "threshold_var \<in> set [''N'', ''R_a'', ''R_d'', ''R_T'', ''D''] \<Longrightarrow>
     \<exists>var_idx. var_indices threshold_var = Inr var_idx"
  by (auto simp add: var_indices_def)

text \<open>
  C7, as stated, fails for \<open>continuation_1d\<close>: with a name that is no key of the
  parameter mapping the call does not fail; it returns a result and leaves a new entry
  under that name in the mapping.
\<close>

theorem continuation_1d_unknown_name_counterexample:
  "params (NicotineRewardModel None) ''k_typo'' = None \<and>
   \<not> isl (fst (continuation_1d stub_solve_ivp stub_fsolve stub_eig ''k_typo'' [1] True True
                 (NicotineRewardModel None))) \<and>
   params (snd (continuation_1d stub_solve_ivp stub_fsolve stub_eig ''k_typo'' [1] True True
                  (NicotineRewardModel None))) ''k_typo'' = Some 1"
  by (simp add: continuation_1d_eq default_parameters_def dom_def)

text \<open>
  C7, amended.  \<open>parameter_sensitivity\<close> called with a name that is not a key of the
  parameter mapping, and \<open>critical_transition_threshold\<close> called with a threshold
  variable other than N, R_a, R_d, R_T, D, fail at once with a \<open>KeyError\<close> carrying
  the offending name and leave the model untouched.  The parameter name given to
  \<open>continuation_1d\<close> and to \<open>critical_transition_threshold\<close> is not checked: with a
  known threshold variable these calls never fail, whatever the name.
\<close>

theorem unknown_identifier_outcomes:
  "(param_name \<notin> dom (params s) \<longrightarrow>
      parameter_sensitivity solve_ivp fsolve eig param_name param_range I_const
        include_upregulation s = (Inl (KeyError param_name), s)) \<and>
   (threshold_var \<notin> set [''N'', ''R_a'', ''R_d'', ''R_T'', ''D''] \<longrightarrow>
      critical_transition_threshold solve_ivp fsolve brentq any_name search_range
        threshold_var threshold_value s = (Inl (KeyError threshold_var), s)) \<and>
   (threshold_var \<in> set [''N'', ''R_a'', ''R_d'', ''R_T'', ''D''] \<longrightarrow>
      \<not> isl (fst (critical_transition_threshold solve_ivp fsolve brentq any_name search_range
                    threshold_var threshold_value s))) \<and>
   \<not> isl (fst (continuation_1d solve_ivp fsolve eig any_name param_range include_upregulation
                 track_stability s))"
proof (intro conjI impI)
  assume "param_name \<notin> dom (params s)"
  then show "parameter_sensitivity solve_ivp fsolve eig param_name param_range I_const
        include_upregulation s = (Inl (KeyError param_name), s)"
    by (rule parameter_sensitivity_unknown)
next
  assume "threshold_var \<notin> set [''N'', ''R_a'', ''R_d'', ''R_T'', ''D'']"
  then show "critical_transition_threshold solve_ivp fsolve brentq any_name search_range
        threshold_var threshold_value s = (Inl (KeyError threshold_var), s)"
    by (simp add: critical_transition_threshold_def var_indices_unknown)
next
  assume "threshold_var \<in> set [''N'', ''R_a'', ''R_d'', ''R_T'', ''D'']"
  then obtain var_idx where "var_indices threshold_var = Inr var_idx"
    using var_indices_known by blast
  from critical_transition_threshold_eq [OF this, of solve_ivp fsolve brentq any_name
      "fst search_range" "snd search_range" threshold_value s]
  show "\<not> isl (fst (critical_transition_threshold solve_ivp fsolve brentq any_name search_range
                    threshold_var threshold_value s))"
    by (simp add: Let_def split: float64.split sum.split)
next
  show "\<not> isl (fst (continuation_1d solve_ivp fsolve eig any_name param_range include_upregulation
                 track_stability s))"
    by (simp add: continuation_1d_eq)
qed

theorem unknown_identifier_outcomes_witness:
  "''k_typo'' \<notin> dom (params (NicotineRewardModel None)) \<and>
   parameter_sensitivity stub_solve_ivp stub_fsolve stub_eig ''k_typo'' [1, 2] 0 True
     (NicotineRewardModel None) = (Inl (KeyError ''k_typo''), NicotineRewardModel None) \<and>
   ''X'' \<notin> set [''N'', ''R_a'', ''R_d'', ''R_T'', ''D''] \<and>
   critical_transition_threshold stub_solve_ivp stub_fsolve stub_brentq ''k_typo'' (0, 2)
     ''X'' 1 (NicotineRewardModel None) = (Inl (KeyError ''X''), NicotineRewardModel None) \<and>
   ''D'' \<in> set [''N'', ''R_a'', ''R_d'', ''R_T'', ''D''] \<and>
   \<not> isl (fst (critical_transition_threshold stub_solve_ivp stub_fsolve stub_brentq ''k_typo''
                 (0, 2) ''D'' 1 (NicotineRewardModel None))) \<and>
   \<not> isl (fst (continuation_1d stub_solve_ivp stub_fsolve stub_eig ''k_typo'' [1, 2] True True
                 (NicotineRewardModel None)))"
  using unknown_identifier_outcomes [where param_name = "''k_typo''"
      and s = "NicotineRewardModel None" and solve_ivp = stub_solve_ivp and fsolve = stub_fsolve
      and eig = stub_eig and brentq = stub_brentq and param_range = "[1, 2]" and I_const = 0
      and include_upregulation = True and track_stability = True and threshold_var = "''X''"
      and any_name = "''k_typo''" and search_range = "(0, 2)" and threshold_value = 1]
    unknown_identifier_outcomes [where param_name = "''k_typo''"
      and s = "NicotineRewardModel None" and solve_ivp = stub_solve_ivp and fsolve = stub_fsolve
      and eig = stub_eig and brentq = stub_brentq and param_range = "[1, 2]" and I_const = 0
      and include_upregulation = True and track_stability = True and threshold_var = "''D''"
      and any_name = "''k_typo''" and search_range = "(0, 2)" and threshold_value = 1]
  by (simp add: default_parameters_def dom_def)



section \<open>Hysteresis width\<close>

lemma hysteresis_width_disjoint:
  assumes "param_range_up \<noteq> []" and "param_range_down \<noteq> []"
    and "(\<forall>u \<in> set param_range_up. \<forall>d \<in> set param_range_down. u < d) \<or>
         (\<forall>u \<in> set param_range_up. \<forall>d \<in> set param_range_down. d < u)"
  shows "hysteresis_width param_range_up param_range_down D_up D_down = Inr (Finite 0)"
proof -
  obtain u0 us where up: "param_range_up = u0 # us"
    using assms(1) by (cases param_range_up) auto
  obtain d0 ds where down: "param_range_down = d0 # ds"
    using assms(2) by (cases param_range_down) auto
  have mem: "u0 \<in> set param_range_up" "last param_range_up \<in> set param_range_up"
    "d0 \<in> set param_range_down" "last param_range_down \<in> set param_range_down"
    using assms(1,2) up down by simp_all
  have items: "first_item param_range_up = Inr u0" "first_item param_range_down = Inr d0"
    "last_item param_range_up = Inr (last param_range_up)"
    "last_item param_range_down = Inr (last param_range_down)"
    using assms(1,2) by (simp_all add: first_item_def last_item_def up down)
  have no_overlap: "\<not> min (last param_range_up) d0 > max u0 (last param_range_down)"
    using assms(3)
  proof
    assume below: "\<forall>u \<in> set param_range_up. \<forall>d \<in> set param_range_down. u < d"
    from below mem(2) mem(4) have "last param_range_up < last param_range_down"
      by blast
    then show ?thesis
      by (simp add: min_def max_def)
  next
    assume above: "\<forall>u \<in> set param_range_up. \<forall>d \<in> set param_range_down. d < u"
    from above mem(1) mem(3) have "d0 < u0"
      by blast
    then show ?thesis
      by (simp add: min_def max_def)
  qed
  show ?thesis
    unfolding hysteresis_width_def items and_then_simps Let_def
    using no_overlap by (simp only: if_False)
qed

lemma hysteresis_loop_disjoint:
  assumes "param_range_up \<noteq> []" and "param_range_down \<noteq> []"
    and "(\<forall>u \<in> set param_range_up. \<forall>d \<in> set param_range_down. u < d) \<or>
         (\<forall>u \<in> set param_range_up. \<forall>d \<in> set param_range_down. d < u)"
  shows "\<exists>r s'. hysteresis_loop solve_ivp fsolve eig param_range_up param_range_down param_name s =
           (Inr r, s') \<and> hr_hysteresis_width r = Finite 0"
  by (simp add: hysteresis_loop_def continuation_1d_eq Let_def
      hysteresis_width_disjoint [OF assms])

lemma hysteresis_loop_reversed_pairing:
  assumes "a < b"
  shows "\<exists>r s'. hysteresis_loop solve_ivp fsolve eig [a, b] [b, a] ''I'' s = (Inr r, s') \<and>
           np_nanmax
             (let D_a = (case point_row (continuation_point solve_ivp fsolve eig ''I'' True True s a) of
                           (r0, r1, r2, r3, r4) \<Rightarrow> r4);
                  D_b = (case point_row (continuation_point solve_ivp fsolve eig ''I'' True True s b) of
                           (r0, r1, r2, r3, r4) \<Rightarrow> r4)
              in [fabs (fsub D_a D_b), fabs (fsub D_b D_a)]) = Inr (hr_hysteresis_width r)"
  using assms
  by (simp add: hysteresis_loop_def continuation_1d_eq hysteresis_width_def first_item_def
      last_item_def column_D_def select_def np_subtract_def Let_def np_nanmax_def
      split: list.split)


text \<open>
  C9.  On the ranges \<open>[0, 0.5, 1]\<close> (up) and \<open>[1, 0]\<close> (down) the overlap is
  \<open>[0, 1]\<close>, with three points of the up-sweep and two of the down-sweep in it;
  \<open>hysteresis_loop\<close> subtracts the two selections element by element and raises
  \<open>ValueError\<close> instead of returning a width, whatever the sweeps computed.
\<close>

theorem hysteresis_loop_shape_mismatch:
  "fst (hysteresis_loop solve_ivp fsolve eig [0, 1 / 2, 1] [1, 0] ''I'' s) =
     Inl (ValueError ''operands could not be broadcast together'')"
  by (simp add: hysteresis_loop_def continuation_1d_eq hysteresis_width_def first_item_def
      last_item_def column_D_def select_def np_subtract_def Let_def)


section \<open>The Jacobian against the clamped right-hand side\<close>

text \<open>
  Where the available fraction is positive (\<open>R_a + R_d < R_T\<close>) the clamp is inactive
  and every entry of the code's Jacobian is the partial derivative of the right-hand
  side, for any parameter mapping that holds the keys the two functions read.
\<close>

lemma and_then_Inr_iff: "and_then r f = Inr y \<longleftrightarrow> (\<exists>x. r = Inr x \<and> f x = Inr y)"
  by (cases r) simp_all

lemma dynamics_keys:
  assumes "dynamics p t y input_func = Inr d"
  obtains k_N k_on k_off k_des k_res k_D k_clear epsilon D_0 where
    "getitem p ''k_N'' = Inr k_N" "getitem p ''k_on'' = Inr k_on"
    "getitem p ''k_off'' = Inr k_off" "getitem p ''k_des'' = Inr k_des"
    "getitem p ''k_res'' = Inr k_res" "getitem p ''k_D'' = Inr k_D"
    "getitem p ''k_clear'' = Inr k_clear" "getitem p ''epsilon'' = Inr epsilon"
    "getitem p ''D_0'' = Inr D_0"
  using assms
  by (auto simp add: dynamics_def Let_def and_then_Inr_iff split: prod.splits)

lemma unclamped_derivative:
  fixes c :: real
  assumes "x0 \<in> S" "open S" "\<And>x. x \<in> S \<Longrightarrow> 0 < a x"
    and "((\<lambda>x. k * n x * a x - c1 * r x - c2 * r x) has_real_derivative v) (at x0)"
  shows "((\<lambda>x. k * n x * max 0 (a x) - c1 * r x - c2 * r x) has_real_derivative v) (at x0)"
  by (rule has_field_derivative_transform_within_open [OF assms(4) assms(2) assms(1)])
    (simp add: max_def assms(3) less_imp_le)

lemma jacobian_exact_unclamped:
  assumes J: "jacobian p (N, R_a, R_d, R_T, D) I_const = Inr J"
    and dyn: "dynamics p t (N, R_a, R_d, R_T, D) (\<lambda>t. I_const) = Inr d0"
    and avail: "R_a + R_d < R_T" and i: "i < 5" and j: "j < 5"
  shows "((\<lambda>x. case dynamics p t (replace j x (N, R_a, R_d, R_T, D)) (\<lambda>t. I_const) of
               Inl e \<Rightarrow> 0
             | Inr d \<Rightarrow> component i d) has_real_derivative J ! i ! j)
           (at (component j (N, R_a, R_d, R_T, D)))"
proof -
  from dyn obtain k_N k_on k_off k_des k_res k_D k_clear epsilon D_0 where keys:
    "getitem p ''k_N'' = Inr k_N" "getitem p ''k_on'' = Inr k_on"
    "getitem p ''k_off'' = Inr k_off" "getitem p ''k_des'' = Inr k_des"
    "getitem p ''k_res'' = Inr k_res" "getitem p ''k_D'' = Inr k_D"
    "getitem p ''k_clear'' = Inr k_clear" "getitem p ''epsilon'' = Inr epsilon"
    "getitem p ''D_0'' = Inr D_0"
    by (rule dynamics_keys)
  have rhs: "\<And>n ra rd rt dd. dynamics p t (n, ra, rd, rt, dd) (\<lambda>t. I_const) =
      Inr (I_const - k_N * n,
           k_on * n * max 0 (rt - ra - rd) - k_off * ra - k_des * ra,
           k_des * ra - k_res * rd,
           epsilon * (dd - D_0),
           k_D * ra - k_clear * dd)"
    by (simp add: dynamics_def keys Let_def)
  have Jeq: "J = [[- k_N, 0, 0, 0, 0],
                [k_on * (R_T - R_a - R_d), - k_on * N - k_off - k_des, - k_on * N, k_on * N, 0],
                [0, k_des, - k_res, 0, 0],
                [0, 0, 0, 0, epsilon],
                [0, k_D, 0, 0, - k_clear]]"
    using J by (simp add: jacobian_def keys Let_def)
  from i have i_cases: "i = 0 \<or> i = 1 \<or> i = 2 \<or> i = 3 \<or> i = 4"
    by arith
  from j have j_cases: "j = 0 \<or> j = 1 \<or> j = 2 \<or> j = 3 \<or> j = 4"
    by arith
  have pos: "0 < R_T - R_a - R_d"
    using avail by simp
  have row1_N: "((\<lambda>x. k_on * x * max 0 (R_T - R_a - R_d) - k_off * R_a - k_des * R_a)
      has_real_derivative k_on * (R_T - R_a - R_d)) (at N)"
    using pos by (auto intro!: derivative_eq_intros simp add: max_def)
  have row1_Ra: "((\<lambda>x. k_on * N * max 0 (R_T - x - R_d) - k_off * x - k_des * x)
      has_real_derivative - k_on * N - k_off - k_des) (at R_a)"
    by (rule unclamped_derivative [where S = "{..< R_T - R_d}"])
      (use avail in \<open>auto intro!: derivative_eq_intros\<close>)
  have row1_Rd: "((\<lambda>x. k_on * N * max 0 (R_T - R_a - x) - k_off * R_a - k_des * R_a)
      has_real_derivative - k_on * N) (at R_d)"
    by (rule unclamped_derivative [where S = "{..< R_T - R_a}"])
      (use avail in \<open>auto intro!: derivative_eq_intros\<close>)
  have row1_RT: "((\<lambda>x. k_on * N * max 0 (x - R_a - R_d) - k_off * R_a - k_des * R_a)
      has_real_derivative k_on * N) (at R_T)"
    by (rule unclamped_derivative [where S = "{R_a + R_d <..}"])
      (use avail in \<open>auto intro!: derivative_eq_intros\<close>)
  have row1_D: "((\<lambda>x. k_on * N * max 0 (R_T - R_a - R_d) - k_off * R_a - k_des * R_a)
      has_real_derivative 0) (at D)"
    by simp
  show ?thesis
  proof (cases "i = 1")
    case True
    from j_cases show ?thesis
    proof (elim disjE)
      assume "j = 0"
      with True row1_N show ?thesis by (simp add: replace_def component_def rhs Jeq)
    next
      assume "j = 1"
      with True row1_Ra show ?thesis by (simp add: replace_def component_def rhs Jeq)
    next
      assume "j = 2"
      with True row1_Rd show ?thesis by (simp add: replace_def component_def rhs Jeq)
    next
      assume "j = 3"
      with True row1_RT show ?thesis by (simp add: replace_def component_def rhs Jeq)
    next
      assume "j = 4"
      with True row1_D show ?thesis by (simp add: replace_def component_def rhs Jeq)
    qed
  next
    case False
    with i_cases have "i = 0 \<or> i = 2 \<or> i = 3 \<or> i = 4"
      by simp
    then show ?thesis
      using j_cases
      apply (elim disjE)
      apply (simp_all add: replace_def component_def rhs Jeq)
      apply (auto intro!: derivative_eq_intros)
      done
  qed
qed

lemma rhs_component_default:
  "(case dynamics default_parameters t (N, R_a, R_d, R_T, D) input_func of
      Inl e \<Rightarrow> 0
    | Inr d \<Rightarrow> component i d) =
   (if i = 0 then input_func t - 6 / 100 * N
    else if i = 1 then 5 / 10 * N * max 0 (R_T - R_a - R_d) - 1 / 10 * R_a - 5 / 100 * R_a
    else if i = 2 then 5 / 100 * R_a - 1 / 100 * R_d
    else if i = 3 then 1 / 10000 * (D - 5 / 10)
    else 1 * R_a - 5 / 10 * D)"
  by (simp add: dynamics_default component_def)

text \<open>
  C4.  At the state \<open>[1, 0.5, 1, 1, 0]\<close>, where \<open>R_T - R_a - R_d\<close> is negative and the
  right-hand side clamps the available fraction to zero, the partial derivative of
  \<open>dR_a/dt\<close> with respect to \<open>R_a\<close> is \<open>-(k_off + k_des) = -3/20\<close>, while the
  entry \<open>J[1][1]\<close> of the code's Jacobian is \<open>-k_on N - k_off - k_des = -13/20\<close>,
  which is not that derivative.
\<close>

theorem jacobian_ignores_clamp:
  "((\<lambda>x. case dynamics default_parameters 0 (replace 1 x (1, 1 / 2, 1, 1, 0)) (\<lambda>t. 0) of
           Inl e \<Rightarrow> 0
         | Inr d \<Rightarrow> component 1 d) has_real_derivative - (3 / 20)) (at (1 / 2)) \<and>
   \<not> ((\<lambda>x. case dynamics default_parameters 0 (replace 1 x (1, 1 / 2, 1, 1, 0)) (\<lambda>t. 0) of
             Inl e \<Rightarrow> 0
           | Inr d \<Rightarrow> component 1 d) has_real_derivative - (13 / 20)) (at (1 / 2)) \<and>
   (case jacobian default_parameters (1, 1 / 2, 1, 1, 0) 0 of
      Inl e \<Rightarrow> False
    | Inr J \<Rightarrow> J ! 1 ! 1 = - (13 / 20))"
proof -
  let ?g = "\<lambda>x. case dynamics default_parameters 0 (replace 1 x (1, 1 / 2, 1, 1, 0)) (\<lambda>t. 0) of
                   Inl e \<Rightarrow> 0
                 | Inr d \<Rightarrow> component 1 d"
  have lin: "((\<lambda>x::real. - (1 / 10) * x - 5 / 100 * x) has_real_derivative - (3 / 20)) (at (1 / 2))"
    by (auto intro!: derivative_eq_intros)
  have same: "\<And>x::real. x \<in> {0 <..} \<Longrightarrow> - (1 / 10) * x - 5 / 100 * x = ?g x"
    by (simp add: replace_def rhs_component_default max_def)
  have d: "(?g has_real_derivative - (3 / 20)) (at (1 / 2))"
    by (rule has_field_derivative_transform_within_open [OF lin open_greaterThan _ same]) simp_all
  have nd: "\<not> (?g has_real_derivative - (13 / 20)) (at (1 / 2))"
  proof
    assume "(?g has_real_derivative - (13 / 20)) (at (1 / 2))"
    from DERIV_unique [OF d this] show False
      by simp
  qed
  have "(case jacobian default_parameters (1, 1 / 2, 1, 1, 0) 0 of
           Inl e \<Rightarrow> False
         | Inr J \<Rightarrow> J ! 1 ! 1 = - (13 / 20))"
    by (simp add: jacobian_default)
  with d nd show ?thesis
    by (intro conjI)
qed


section \<open>The spectrum of the baseline Jacobian\<close>

text \<open>
  The stability flag of \<open>eigenanalysis\<close> is the conjunction of the sign tests on the
  eigenvalues returned by the eigen-decomposition, and the eigenvalues of the default
  model's Jacobian at the baseline under zero intake are exactly \<open>-0.06\<close>, \<open>-0.15\<close>,
  \<open>-0.01\<close>, \<open>0\<close> and \<open>-0.5\<close>.
\<close>

lemma eigenanalysis_is_stable:
  assumes "jacobian (params s) y I_const = Inr J" and "eig J = Inr (eigvals, eigvecs)"
  shows "\<exists>r. eigenanalysis eig y I_const s = (Inr r, s) \<and>
             er_is_stable r = list_all (\<lambda>z. Re z < 0) eigvals"
  using assms by (simp add: eigenanalysis_def Let_def list_all_iff)

lemma baseline_jacobian_spectrum:
  assumes "jacobian default_parameters (0, 0, 0, 1, 1 / 2) 0 = Inr J"
  shows "(\<exists>v. is_eigenpair J lam v) \<longleftrightarrow>
           lam \<in> {- (6 / 100), - (15 / 100), - (1 / 100), 0, - (5 / 10)}"
proof
  assume "\<exists>v. is_eigenpair J lam v"
  then obtain v where v: "is_eigenpair J lam v" ..
  from assms have J: "J = [[- (6 / 100), 0, 0, 0, 0],
          [5 / 10, - (15 / 100), 0, 0, 0],
          [0, 5 / 100, - (1 / 100), 0, 0],
          [0, 0, 0, 0, 1 / 10000],
          [0, 1, 0, 0, - (5 / 10)]]"
    by (simp add: jacobian_default)
  from v J have "length v = 5"
    by (simp add: is_eigenpair_def)
  then obtain v0 v1 v2 v3 v4 where vs: "v = [v0, v1, v2, v3, v4]"
    by (auto simp add: length_Suc_conv numeral_eq_Suc)
  from v have eqs:
    "- (6 / 100) * v0 = lam * v0"
    "5 / 10 * v0 - 15 / 100 * v1 = lam * v1"
    "5 / 100 * v1 - 1 / 100 * v2 = lam * v2"
    "1 / 10000 * v4 = lam * v3"
    "v1 - 5 / 10 * v4 = lam * v4"
    and nz: "v0 \<noteq> 0 \<or> v1 \<noteq> 0 \<or> v2 \<noteq> 0 \<or> v3 \<noteq> 0 \<or> v4 \<noteq> 0"
    by (auto simp add: is_eigenpair_def mat_vec_def J vs)
  show "lam \<in> {- (6 / 100), - (15 / 100), - (1 / 100), 0, - (5 / 10)}"
  proof (rule ccontr)
    assume "lam \<notin> {- (6 / 100), - (15 / 100), - (1 / 100), 0, - (5 / 10)}"
    then have ne: "lam \<noteq> - (6 / 100)" "lam \<noteq> - (15 / 100)" "lam \<noteq> - (1 / 100)" "lam \<noteq> 0"
      "lam \<noteq> - (5 / 10)"
      by auto
    from eqs(1) ne(1) have v0: "v0 = 0"
      by (simp only: mult_cancel_right) simp
    from eqs(2) v0 have "- (15 / 100) * v1 = lam * v1"
      by simp
    with ne(2) have v1: "v1 = 0"
      by (simp only: mult_cancel_right) simp
    from eqs(3) v1 have "- (1 / 100) * v2 = lam * v2"
      by simp
    with ne(3) have v2: "v2 = 0"
      by (simp only: mult_cancel_right) simp
    from eqs(5) v1 have "- (5 / 10) * v4 = lam * v4"
      by simp
    with ne(5) have v4: "v4 = 0"
      by (simp only: mult_cancel_right) simp
    from eqs(4) v4 ne(4) have v3: "v3 = 0"
      by simp
    from nz v0 v1 v2 v3 v4 show False
      by simp
  qed
next
  assume lam: "lam \<in> {- (6 / 100), - (15 / 100), - (1 / 100), 0, - (5 / 10)}"
  from assms have J: "J = [[- (6 / 100), 0, 0, 0, 0],
          [5 / 10, - (15 / 100), 0, 0, 0],
          [0, 5 / 100, - (1 / 100), 0, 0],
          [0, 0, 0, 0, 1 / 10000],
          [0, 1, 0, 0, - (5 / 10)]]"
    by (simp add: jacobian_default)
  have e1: "is_eigenpair J (- (6 / 100)) [1, 50 / 9, - (50 / 9), - (25 / 1188), 1250 / 99]"
    by (simp add: is_eigenpair_def mat_vec_def J)
  have e2: "is_eigenpair J (- (15 / 100)) [0, 1, - (5 / 14), - (1 / 525), 20 / 7]"
    by (simp add: is_eigenpair_def mat_vec_def J)
  have e3: "is_eigenpair J (- (1 / 100)) [0, 0, 1, 0, 0]"
    by (simp add: is_eigenpair_def mat_vec_def J)
  have e4: "is_eigenpair J 0 [0, 0, 0, 1, 0]"
    by (simp add: is_eigenpair_def mat_vec_def J)
  have e5: "is_eigenpair J (- (5 / 10)) [0, 0, 0, - (1 / 5000), 1]"
    by (simp add: is_eigenpair_def mat_vec_def J)
  from lam e1 e2 e3 e4 e5 show "\<exists>v. is_eigenpair J lam v"
    by auto
qed


end
